theory Spec2Isabelle
  imports Main
begin

section \<open>JavaScript strings\<close>

text \<open>
  Source strings are modelled as \<^typ>\<open>string\<close>. The white space of \<^verbatim>\<open>String.prototype.trim\<close>
  and of the regular expression class \<^verbatim>\<open>\s\<close> is, among the characters a \<^typ>\<open>char\<close> can
  hold: TAB, LF, VT, FF, CR, SPACE and NBSP. The line terminators that the regular
  expression \<^verbatim>\<open>.\<close> refuses are LF and CR.
\<close>

definition LF :: char where
  "LF = CHR 0x0A"

definition CR :: char where
  "CR = CHR 0x0D"

definition is_ws :: "char \<Rightarrow> bool" where
  "is_ws c = (c = CHR 0x09 \<or> c = CHR 0x0A \<or> c = CHR 0x0B \<or> c = CHR 0x0C \<or> c = CHR 0x0D
              \<or> c = CHR 0x20 \<or> c = CHR 0xA0)"

definition is_line_terminator :: "char \<Rightarrow> bool" where
  "is_line_terminator c = (c = CHR 0x0A \<or> c = CHR 0x0D)"

definition trimStart :: "string \<Rightarrow> string" where
  "trimStart s = dropWhile is_ws s"

definition trimEnd :: "string \<Rightarrow> string" where
  "trimEnd s = rev (dropWhile is_ws (rev s))"

definition trim :: "string \<Rightarrow> string" where
  "trim s = trimEnd (trimStart s)"

definition startsWith :: "string \<Rightarrow> string \<Rightarrow> bool" where
  "startsWith s p = (take (length p) s = p)"

definition endsWith :: "string \<Rightarrow> string \<Rightarrow> bool" where
  "endsWith s p = (take (length p) (rev s) = rev p)"

text \<open>\<^verbatim>\<open>s.includes(p)\<close>.\<close>

fun str_includes :: "string \<Rightarrow> string \<Rightarrow> bool" where
  "str_includes [] p = (p = [])"
| "str_includes (c # cs) p = (startsWith (c # cs) p \<or> str_includes cs p)"

text \<open>\<^verbatim>\<open>s.indexOf(p)\<close>: the first index at which \<open>p\<close> occurs, \<open>None\<close> for JavaScript's -1.\<close>

fun indexOf :: "string \<Rightarrow> string \<Rightarrow> nat option" where
  "indexOf [] p = (if p = [] then Some 0 else None)"
| "indexOf (c # cs) p =
     (if startsWith (c # cs) p then Some 0
      else (case indexOf cs p of None \<Rightarrow> None | Some i \<Rightarrow> Some (Suc i)))"

text \<open>
  \<^verbatim>\<open>s.split(d)\<close> for a one-character separator (\<open>piece\<close> is the current piece,
  reversed), \<^verbatim>\<open>s.split('\n')\<close> and \<^verbatim>\<open>lines.join('\n')\<close>.
\<close>

fun split_from :: "char \<Rightarrow> string \<Rightarrow> string \<Rightarrow> string list" where
  "split_from d piece [] = [rev piece]"
| "split_from d piece (c # cs) =
     (if c = d then rev piece # split_from d [] cs else split_from d (c # piece) cs)"

definition split_on :: "char \<Rightarrow> string \<Rightarrow> string list" where
  "split_on d s = split_from d [] s"

definition split_lines :: "string \<Rightarrow> string list" where
  "split_lines s = split_on LF s"

fun join_with :: "string \<Rightarrow> string list \<Rightarrow> string" where
  "join_with sep [] = []"
| "join_with sep [l] = l"
| "join_with sep (l # m # ls) = l @ sep @ join_with sep (m # ls)"

definition join_lines :: "string list \<Rightarrow> string" where
  "join_lines ls = join_with [LF] ls"

section \<open>Regular expressions\<close>

text \<open>
  The regular expressions of the source are values of \<open>rx\<close>, matched by a backtracking
  matcher that tries the alternatives in the order of the ECMAScript semantics.
  \<open>ms p b r g\<close> is the list of all the ways in which \<open>p\<close> matches at the position with
  the text \<open>b\<close> before it (reversed), the text \<open>r\<close> after it and the captures \<open>g\<close> so
  far, the preferred way first: a character, a character class, the empty expression, a
  sequence, an alternative (left first), the greedy and the lazy star (an iteration that
  consumes nothing is rejected), a capturing group, \<^verbatim>\<open>^\<close> and \<^verbatim>\<open>$\<close> without the \<^verbatim>\<open>m\<close>
  flag, \<^verbatim>\<open>\b\<close>, and the negative lookahead. The result of a match is the first element.
\<close>

definition is_word :: "char \<Rightarrow> bool" where
  "is_word c =
     (let k = (of_char c :: nat)
      in (48 \<le> k \<and> k \<le> 57) \<or> (65 \<le> k \<and> k \<le> 90) \<or> (97 \<le> k \<and> k \<le> 122) \<or> k = 95)"

datatype rx =
    Chr char
  | Cls "char \<Rightarrow> bool"
  | Eps
  | Seq rx rx
  | Alt rx rx
  | Star rx
  | Lazy rx
  | Grp nat rx
  | Bol
  | Eol
  | WordB
  | NotAhead rx

type_synonym captures = "(nat \<times> string) list"

fun ms :: "rx \<Rightarrow> string \<Rightarrow> string \<Rightarrow> captures \<Rightarrow> (string \<times> string \<times> captures) list" where
  "ms (Chr c) b [] g = []"
| "ms (Chr c) b (x # xs) g = (if x = c then [(x # b, xs, g)] else [])"
| "ms (Cls p) b [] g = []"
| "ms (Cls p) b (x # xs) g = (if p x then [(x # b, xs, g)] else [])"
| "ms Eps b r g = [(b, r, g)]"
| "ms (Seq p q) b r g = concat (map (\<lambda>(b', r', g'). ms q b' r' g') (ms p b r g))"
| "ms (Alt p q) b r g = ms p b r g @ ms q b r g"
| "ms (Star p) b r g =
     concat (map (\<lambda>(b', r', g'). if length r' < length r then ms (Star p) b' r' g' else [])
               (ms p b r g)) @ [(b, r, g)]"
| "ms (Lazy p) b r g =
     (b, r, g) #
     concat (map (\<lambda>(b', r', g'). if length r' < length r then ms (Lazy p) b' r' g' else [])
               (ms p b r g))"
| "ms (Grp i p) b r g =
     map (\<lambda>(b', r', g'). (b', r', (i, rev (take (length b' - length b) b')) # g')) (ms p b r g)"
| "ms Bol b r g = (if b = [] then [(b, r, g)] else [])"
| "ms Eol b r g = (if r = [] then [(b, r, g)] else [])"
| "ms WordB b r g =
     (if (case b of [] \<Rightarrow> False | x # _ \<Rightarrow> is_word x)
         \<noteq> (case r of [] \<Rightarrow> False | y # _ \<Rightarrow> is_word y)
      then [(b, r, g)] else [])"
| "ms (NotAhead p) b r g = (if ms p b r g = [] then [(b, r, g)] else [])"

text \<open>The usual abbreviations: a literal text, \<^verbatim>\<open>p?\<close>, \<^verbatim>\<open>p+\<close>, sequences and alternatives.\<close>

definition Lit :: "string \<Rightarrow> rx" where
  "Lit s = foldr (\<lambda>c p. Seq (Chr c) p) s Eps"

definition Opt :: "rx \<Rightarrow> rx" where
  "Opt p = Alt p Eps"

definition Plus :: "rx \<Rightarrow> rx" where
  "Plus p = Seq p (Star p)"

fun Seqs :: "rx list \<Rightarrow> rx" where
  "Seqs [] = Eps"
| "Seqs [p] = p"
| "Seqs (p # ps) = Seq p (Seqs ps)"

fun Alts :: "rx list \<Rightarrow> rx" where
  "Alts [] = NotAhead Eps"
| "Alts [p] = p"
| "Alts (p # ps) = Alt p (Alts ps)"

text \<open>\<^verbatim>\<open>\s\<close>, \<^verbatim>\<open>\w\<close>, \<^verbatim>\<open>.\<close>, \<^verbatim>\<open>[\r\n]\<close> and the lookahead \<^verbatim>\<open>(?!\s*[\r\n])\<close>.\<close>

definition Ws :: rx where
  "Ws = Cls is_ws"

definition Wd :: rx where
  "Wd = Cls is_word"

definition Dot :: rx where
  "Dot = Cls (\<lambda>c. \<not> is_line_terminator c)"

definition Nl :: rx where
  "Nl = Cls is_line_terminator"

definition no_newline_ahead :: rx where
  "no_newline_ahead = NotAhead (Seq (Star Ws) Nl)"

text \<open>
  The first match at a position (its length and captures), the leftmost match in a text
  (\<^verbatim>\<open>re.exec\<close>: index, length, captures), \<^verbatim>\<open>re.test(s)\<close> and \<^verbatim>\<open>s.match(re)\<close>.
\<close>

definition first_match :: "rx \<Rightarrow> string \<Rightarrow> string \<Rightarrow> (nat \<times> captures) option" where
  "first_match p b r =
     (case ms p b r [] of [] \<Rightarrow> None | (b', r', g) # _ \<Rightarrow> Some (length r - length r', g))"

fun rx_search :: "rx \<Rightarrow> string \<Rightarrow> string \<Rightarrow> (nat \<times> nat \<times> captures) option" where
  "rx_search p b [] =
     (case first_match p b [] of None \<Rightarrow> None | Some (n, g) \<Rightarrow> Some (0, n, g))"
| "rx_search p b (c # cs) =
     (case first_match p b (c # cs) of
        Some (n, g) \<Rightarrow> Some (0, n, g)
      | None \<Rightarrow>
          (case rx_search p (c # b) cs of
             None \<Rightarrow> None
           | Some (i, n, g) \<Rightarrow> Some (Suc i, n, g)))"

definition rx_test :: "rx \<Rightarrow> string \<Rightarrow> bool" where
  "rx_test p s = (rx_search p [] s \<noteq> None)"

definition rx_match :: "rx \<Rightarrow> string \<Rightarrow> captures option" where
  "rx_match p s = (case rx_search p [] s of None \<Rightarrow> None | Some (i, n, g) \<Rightarrow> Some g)"

text \<open>The capture \<open>i\<close> of a match; a group that took no part reads as \<open>None\<close>.\<close>

definition capture :: "captures \<Rightarrow> nat \<Rightarrow> string option" where
  "capture g i = map_of g i"

text \<open>
  Replacement texts: literal text, \<^verbatim>\<open>$1\<close>, \<^verbatim>\<open>$2\<close>, ... and \<^verbatim>\<open>$&\<close>. A group that took no
  part expands to the empty text.
\<close>

datatype tmpl = T string | G nat | Whole

fun expand :: "tmpl list \<Rightarrow> string \<Rightarrow> captures \<Rightarrow> string" where
  "expand [] m g = []"
| "expand (T s # ts) m g = s @ expand ts m g"
| "expand (G i # ts) m g = (case map_of g i of None \<Rightarrow> [] | Some s \<Rightarrow> s) @ expand ts m g"
| "expand (Whole # ts) m g = m @ expand ts m g"

text \<open>
  \<^verbatim>\<open>s.replace(re, t)\<close> with the \<^verbatim>\<open>g\<close> flag: the matches are found from left to right,
  each search starting where the previous match ended (one character further after an
  empty match); \<open>k\<close> is the number of characters of the current match still to skip.
\<close>

fun rx_replace_all :: "rx \<Rightarrow> tmpl list \<Rightarrow> nat \<Rightarrow> string \<Rightarrow> string \<Rightarrow> string" where
  "rx_replace_all p t k b [] =
     (if k = 0
      then (case first_match p b [] of None \<Rightarrow> [] | Some (n, g) \<Rightarrow> expand t [] g)
      else [])"
| "rx_replace_all p t (Suc k) b (c # cs) = rx_replace_all p t k (c # b) cs"
| "rx_replace_all p t 0 b (c # cs) =
     (case first_match p b (c # cs) of
        None \<Rightarrow> c # rx_replace_all p t 0 (c # b) cs
      | Some (n, g) \<Rightarrow>
          expand t (take n (c # cs)) g @
          (if n = 0 then c # rx_replace_all p t 0 (c # b) cs
           else rx_replace_all p t (n - 1) (c # b) cs))"

definition replace_all :: "rx \<Rightarrow> tmpl list \<Rightarrow> string \<Rightarrow> string" where
  "replace_all p t s = rx_replace_all p t 0 [] s"

text \<open>\<^verbatim>\<open>s.replace(re, t)\<close> without the \<^verbatim>\<open>g\<close> flag: the leftmost match only.\<close>

definition replace_first :: "rx \<Rightarrow> tmpl list \<Rightarrow> string \<Rightarrow> string" where
  "replace_first p t s =
     (case rx_search p [] s of
        None \<Rightarrow> s
      | Some (i, n, g) \<Rightarrow> take i s @ expand t (take n (drop i s)) g @ drop (i + n) s)"

section \<open>The conversion entry point\<close>

datatype language =
  JavaScript | Python | Java | TypeScript | CSharp | Cpp | Php | Go | Rust | Kotlin

text \<open>\<^verbatim>\<open>SUPPORTED_LANGUAGES\<close>: identifier, label and extension, in the source's order.\<close>

definition SUPPORTED_LANGUAGES :: "(string \<times> string \<times> string) list" where
  "SUPPORTED_LANGUAGES =
     [(''javascript'', ''JavaScript'', ''js''),
      (''python'', ''Python'', ''py''),
      (''java'', ''Java'', ''java''),
      (''typescript'', ''TypeScript'', ''ts''),
      (''csharp'', ''C#'', ''cs''),
      (''cpp'', ''C++'', ''cpp''),
      (''php'', ''PHP'', ''php''),
      (''go'', ''Go'', ''go''),
      (''rust'', ''Rust'', ''rs''),
      (''kotlin'', ''Kotlin'', ''kt'')]"

definition supported_identifiers :: "string list" where
  "supported_identifiers = map fst SUPPORTED_LANGUAGES"

text \<open>
  \<^verbatim>\<open>CONVERTERS\<close> is an object literal, so \<^verbatim>\<open>CONVERTERS[tag]\<close> reads the object's own
  ten properties first and then the properties every object literal inherits from
  \<^verbatim>\<open>Object.prototype\<close>. A slot is what the read returns: a converter class, the
  inherited \<^verbatim>\<open>Object\<close> constructor, an inherited built-in method (a function that is
  not a constructor), the prototype object itself, or \<^verbatim>\<open>undefined\<close>.
\<close>

datatype slot =
  ConverterClass language | ObjectConstructor | BuiltinMethod | PrototypeObject | Undefined

definition own_converters :: "(string \<times> language) list" where
  "own_converters =
     [(''javascript'', JavaScript), (''python'', Python), (''java'', Java),
      (''typescript'', TypeScript), (''csharp'', CSharp), (''cpp'', Cpp), (''php'', Php),
      (''go'', Go), (''rust'', Rust), (''kotlin'', Kotlin)]"

definition inherited_methods :: "string list" where
  "inherited_methods =
     [''hasOwnProperty'', ''isPrototypeOf'', ''propertyIsEnumerable'', ''toLocaleString'',
      ''toString'', ''valueOf'', ''__defineGetter__'', ''__defineSetter__'',
      ''__lookupGetter__'', ''__lookupSetter__'']"

definition CONVERTERS :: "string \<Rightarrow> slot" where
  "CONVERTERS tag =
     (case map_of own_converters tag of
        Some l \<Rightarrow> ConverterClass l
      | None \<Rightarrow>
          if tag = ''constructor'' then ObjectConstructor
          else if tag = ''__proto__'' then PrototypeObject
          else if tag \<in> set inherited_methods then BuiltinMethod
          else Undefined)"

text \<open>\<^verbatim>\<open>!slot\<close>: of the values a slot can hold, only \<^verbatim>\<open>undefined\<close> is falsy.\<close>

fun falsy_slot :: "slot \<Rightarrow> bool" where
  "falsy_slot Undefined = True"
| "falsy_slot _ = False"

record warning =
  message :: string
  wline :: "nat option"
  wlanguage :: string

record conversion =
  code :: string
  warnings :: "warning list"

text \<open>
  The three pipeline stages that \<^verbatim>\<open>convertCode\<close> calls on the converter objects. A stage
  either throws (\<open>Inl\<close> the error's message) or returns its value together with the
  warnings the converter has collected. \<^verbatim>\<open>convertCode\<close> is written against any such
  stages; a call of a stage is recorded in the trace that the model returns.
\<close>

record 'ast stages =
  stage_parseToAST :: "language \<Rightarrow> string \<Rightarrow> string + ('ast \<times> warning list)"
  stage_generateFromAST :: "language \<Rightarrow> 'ast \<Rightarrow> string + (string \<times> warning list)"
  stage_formatCode :: "language \<Rightarrow> string \<Rightarrow> string + (string \<times> warning list)"

datatype stage_call = ParseToAST language | GenerateFromAST language | FormatCode language

text \<open>
  The body of the \<^verbatim>\<open>try\<close> block, for the two slots that passed the truthiness check.
  \<^verbatim>\<open>new\<close> on a slot that is not a constructor throws a TypeError, and so does the
  call of a method that the plain object made by \<^verbatim>\<open>new Object()\<close> does not have; the
  messages are V8's. The result is the trace of the stages called, and the thrown
  message or the returned object.
\<close>

definition run_pipeline ::
  "'ast stages \<Rightarrow> slot \<Rightarrow> slot \<Rightarrow> string \<Rightarrow> stage_call list \<times> (string + conversion)" where
  "run_pipeline P fromConverter toConverter sourceCode =
     (case fromConverter of
        ConverterClass src \<Rightarrow>
          (case stage_parseToAST P src sourceCode of
             Inl e \<Rightarrow> ([ParseToAST src], Inl e)
           | Inr (ast, sw) \<Rightarrow>
               (case toConverter of
                  ConverterClass tgt \<Rightarrow>
                    (case stage_generateFromAST P tgt ast of
                       Inl e \<Rightarrow> ([ParseToAST src, GenerateFromAST tgt], Inl e)
                     | Inr (targetCode, gw) \<Rightarrow>
                         (case stage_formatCode P tgt targetCode of
                            Inl e \<Rightarrow>
                              ([ParseToAST src, GenerateFromAST tgt, FormatCode tgt], Inl e)
                          | Inr (formattedCode, fw) \<Rightarrow>
                              ([ParseToAST src, GenerateFromAST tgt, FormatCode tgt],
                               if formattedCode = []
                               then Inl ''Code formatting failed - invalid output''
                               else Inr \<lparr>code = formattedCode, warnings = sw @ gw @ fw\<rparr>)))
                | ObjectConstructor \<Rightarrow>
                    ([ParseToAST src], Inl ''targetConverter.generateFromAST is not a function'')
                | _ \<Rightarrow> ([ParseToAST src], Inl ''toConverter is not a constructor'')))
      | ObjectConstructor \<Rightarrow> ([], Inl ''sourceConverter.parseToAST is not a function'')
      | _ \<Rightarrow> ([], Inl ''fromConverter is not a constructor''))"

definition convertCode ::
  "'ast stages \<Rightarrow> string \<Rightarrow> string \<Rightarrow> string \<Rightarrow> stage_call list \<times> (string + conversion)" where
  "convertCode P sourceCode fromLang toLang =
     (if trim sourceCode = [] then ([], Inl ''Please provide source code to convert'')
      else if fromLang = toLang then ([], Inl ''Source and target languages must be different'')
      else if falsy_slot (CONVERTERS fromLang) \<or> falsy_slot (CONVERTERS toLang)
      then ([], Inl (''Conversion between '' @ fromLang @ '' and '' @ toLang @ '' is not supported''))
      else
        (case run_pipeline P (CONVERTERS fromLang) (CONVERTERS toLang) sourceCode of
           (trace, Inl e) \<Rightarrow> (trace, Inl (''Conversion failed: '' @ e))
         | (trace, Inr r) \<Rightarrow> (trace, Inr r)))"


section \<open>The shallow tree\<close>

text \<open>
  A node is a JavaScript object; the record has every property that the parsers write and
  the formatters read, an absent property being \<open>None\<close> (or \<open>False\<close> for a flag).
  \<^verbatim>\<open>type\<close> is \<open>ntype\<close>, \<^verbatim>\<open>line\<close> is \<open>lineNumber\<close>, \<^verbatim>\<open>value\<close> is \<open>val\<close>, \<^verbatim>\<open>definition\<close> is
  \<open>definition_text\<close> and \<^verbatim>\<open>constructor\<close> is \<open>ctor\<close>. \<^verbatim>\<open>context\<close> refers to the enclosing
  node; the reference is the line number of that node (\<open>enclosing\<close>).
\<close>

record node =
  ntype :: string
  originalLine :: "string option"
  lineNumber :: nat
  indent :: "nat option"
  enclosing :: "nat option"
  content :: "string option"
  indentation :: "nat option"
  inlineComment :: "string option"
  name :: "string option"
  parameters :: "string list option"
  body :: "string list option"
  returnType :: "string option"
  extends :: "string option"
  implements :: "string option"
  val :: "string option"
  dataType :: "string option"
  declarationType :: "string option"
  subtype :: "string option"
  condition :: "string option"
  inheritance :: "string option"
  structType :: "string option"
  definition_text :: "string option"
  isConst :: bool
  isMutable :: bool
  ctor :: "string option"
  properties :: "string option"
  methods :: "string list option"
  isArrow :: "bool option"

definition object_literal :: node where
  "object_literal =
     \<lparr>ntype = [], originalLine = None, lineNumber = 0, indent = None, enclosing = None,
      content = None, indentation = None, inlineComment = None, name = None,
      parameters = None, body = None, returnType = None, extends = None, implements = None,
      val = None, dataType = None, declarationType = None, subtype = None, condition = None,
      inheritance = None, structType = None, definition_text = None, isConst = False,
      isMutable = False, ctor = None, properties = None, methods = None, isArrow = None\<rparr>"

record metadata =
  totalLines :: nat
  complexity :: nat

record ast =
  atype :: string
  abody :: "node list"
  sourceLanguage :: string
  originalCode :: string
  ameta :: "metadata option"

datatype comment_kind = FullLine | Inline

record comment =
  ckind :: comment_kind
  ccontent :: string
  coriginalLine :: nat
  cindentation :: "nat option"
  associatedCode :: "string option"

record extraction =
  cleanCode :: string
  comments :: "comment list"
  commentMap :: "nat \<Rightarrow> nat option"

text \<open>
  The methods of \<^verbatim>\<open>BaseLanguageConverter\<close> that the language classes override are the
  fields of a converter. \<^verbatim>\<open>parseExpression\<close> and \<^verbatim>\<open>parseImportExport\<close> are overridden by no
  class and are the base's own.
\<close>

record converter =
  languageName :: string
  validateSyntax :: "string \<Rightarrow> warning list"
  isFullLineComment :: "string \<Rightarrow> bool"
  hasInlineComment :: "string \<Rightarrow> bool"
  splitInlineComment :: "string \<Rightarrow> string \<times> string"
  isFunctionDefinition :: "string \<Rightarrow> bool"
  isClassDefinition :: "string \<Rightarrow> bool"
  isVariableAssignment :: "string \<Rightarrow> bool"
  isControlFlow :: "string \<Rightarrow> bool"
  isImportExport :: "string \<Rightarrow> bool"
  isBlockStart :: "node \<Rightarrow> bool"
  isBlockEnd :: "string \<Rightarrow> bool"
  parseFunctionDefinition :: "string \<Rightarrow> nat \<Rightarrow> nat \<Rightarrow> nat option \<Rightarrow> node"
  parseClassDefinition :: "string \<Rightarrow> nat \<Rightarrow> nat \<Rightarrow> nat option \<Rightarrow> node"
  parseVariableAssignment :: "string \<Rightarrow> nat \<Rightarrow> nat \<Rightarrow> nat option \<Rightarrow> node"
  parseControlFlow :: "string \<Rightarrow> nat \<Rightarrow> nat \<Rightarrow> nat option \<Rightarrow> node"

subsection \<open>The base class's parsing methods\<close>

definition base_parse :: "string \<Rightarrow> string \<Rightarrow> nat \<Rightarrow> nat \<Rightarrow> nat option \<Rightarrow> node" where
  "base_parse t ln n ind ctx =
     object_literal\<lparr>ntype := t, originalLine := Some ln, lineNumber := n, indent := Some ind,
       enclosing := ctx\<rparr>"

definition Base_parseFunctionDefinition :: "string \<Rightarrow> nat \<Rightarrow> nat \<Rightarrow> nat option \<Rightarrow> node" where
  "Base_parseFunctionDefinition = base_parse ''FunctionDefinition''"

definition Base_parseClassDefinition :: "string \<Rightarrow> nat \<Rightarrow> nat \<Rightarrow> nat option \<Rightarrow> node" where
  "Base_parseClassDefinition = base_parse ''ClassDefinition''"

definition Base_parseVariableAssignment :: "string \<Rightarrow> nat \<Rightarrow> nat \<Rightarrow> nat option \<Rightarrow> node" where
  "Base_parseVariableAssignment = base_parse ''VariableAssignment''"

definition Base_parseControlFlow :: "string \<Rightarrow> nat \<Rightarrow> nat \<Rightarrow> nat option \<Rightarrow> node" where
  "Base_parseControlFlow = base_parse ''ControlFlow''"

definition parseImportExport :: "string \<Rightarrow> nat \<Rightarrow> nat \<Rightarrow> node" where
  "parseImportExport ln n ind =
     object_literal\<lparr>ntype := ''ImportExport'', originalLine := Some ln, lineNumber := n,
       indent := Some ind\<rparr>"

definition parseExpression :: "string \<Rightarrow> nat \<Rightarrow> nat \<Rightarrow> nat option \<Rightarrow> node" where
  "parseExpression = base_parse ''Expression''"

subsection \<open>Line classification\<close>

definition parseLineToNode :: "converter \<Rightarrow> string \<Rightarrow> nat \<Rightarrow> nat option \<Rightarrow> node" where
  "parseLineToNode h ln n ctx =
     (let trimmedLine = trim ln;
          ind = length ln - length (trimStart ln)
      in if isFunctionDefinition h trimmedLine
         then parseFunctionDefinition h trimmedLine n ind ctx
         else if isClassDefinition h trimmedLine
         then parseClassDefinition h trimmedLine n ind ctx
         else if isVariableAssignment h trimmedLine
         then parseVariableAssignment h trimmedLine n ind ctx
         else if isControlFlow h trimmedLine
         then parseControlFlow h trimmedLine n ind ctx
         else if isImportExport h trimmedLine
         then parseImportExport trimmedLine n ind
         else parseExpression trimmedLine n ind ctx)"

text \<open>
  The classification as the specification words it: the categories are tried in a fixed
  priority order, the first whose predicate holds is taken, and a line that matches none
  is a generic expression.
\<close>

datatype category =
  FunctionCat | ClassCat | VariableCat | ControlFlowCat | ImportExportCat | ExpressionCat

definition priority_order :: "category list" where
  "priority_order = [FunctionCat, ClassCat, VariableCat, ControlFlowCat, ImportExportCat]"

fun category_matches :: "converter \<Rightarrow> category \<Rightarrow> string \<Rightarrow> bool" where
  "category_matches h FunctionCat t = isFunctionDefinition h t"
| "category_matches h ClassCat t = isClassDefinition h t"
| "category_matches h VariableCat t = isVariableAssignment h t"
| "category_matches h ControlFlowCat t = isControlFlow h t"
| "category_matches h ImportExportCat t = isImportExport h t"
| "category_matches h ExpressionCat t = True"

definition classify :: "converter \<Rightarrow> string \<Rightarrow> category" where
  "classify h t =
     (case find (\<lambda>c. category_matches h c t) priority_order of
        None \<Rightarrow> ExpressionCat
      | Some c \<Rightarrow> c)"

fun parse_as :: "converter \<Rightarrow> category \<Rightarrow> string \<Rightarrow> nat \<Rightarrow> nat \<Rightarrow> nat option \<Rightarrow> node" where
  "parse_as h FunctionCat t n ind ctx = parseFunctionDefinition h t n ind ctx"
| "parse_as h ClassCat t n ind ctx = parseClassDefinition h t n ind ctx"
| "parse_as h VariableCat t n ind ctx = parseVariableAssignment h t n ind ctx"
| "parse_as h ControlFlowCat t n ind ctx = parseControlFlow h t n ind ctx"
| "parse_as h ImportExportCat t n ind ctx = parseImportExport t n ind"
| "parse_as h ExpressionCat t n ind ctx = parseExpression t n ind ctx"

subsection \<open>Comment extraction\<close>

text \<open>
  The loop of \<^verbatim>\<open>extractCommentsWithContext\<close>, at line index \<open>i\<close>, with the three
  accumulators of the source. \<^verbatim>\<open>!line\<close> holds of the empty line only.
\<close>

fun extract_loop ::
  "converter \<Rightarrow> string list \<Rightarrow> nat \<Rightarrow> string list \<Rightarrow> comment list \<Rightarrow> (nat \<Rightarrow> nat option)
   \<Rightarrow> string list \<times> comment list \<times> (nat \<Rightarrow> nat option)" where
  "extract_loop h [] i cleanLines cs cm = (cleanLines, cs, cm)"
| "extract_loop h (ln # rest) i cleanLines cs cm =
     (if ln = [] then extract_loop h rest (Suc i) (cleanLines @ [[]]) cs cm
      else if isFullLineComment h (trim ln)
      then extract_loop h rest (Suc i) (cleanLines @ [[]])
             (cs @ [\<lparr>ckind = FullLine, ccontent = trim ln, coriginalLine = i,
                     cindentation = Some (length ln - length (trimStart ln)),
                     associatedCode = None\<rparr>])
             (cm(i \<mapsto> length cs))
      else if hasInlineComment h ln
      then extract_loop h rest (Suc i) (cleanLines @ [fst (splitInlineComment h ln)])
             (cs @ [\<lparr>ckind = Inline, ccontent = snd (splitInlineComment h ln),
                     coriginalLine = i, cindentation = None,
                     associatedCode = Some (trim (fst (splitInlineComment h ln)))\<rparr>])
             (cm(i \<mapsto> length cs))
      else extract_loop h rest (Suc i) (cleanLines @ [ln]) cs cm)"

definition extractCommentsWithContext :: "converter \<Rightarrow> string \<Rightarrow> extraction" where
  "extractCommentsWithContext h sourceCode =
     (if sourceCode = [] then \<lparr>cleanCode = [], comments = [], commentMap = Map.empty\<rparr>
      else case extract_loop h (split_lines sourceCode) 0 [] [] Map.empty of
        (cleanLines, cs, cm) \<Rightarrow>
          \<lparr>cleanCode = join_lines cleanLines, comments = cs, commentMap = cm\<rparr>)"

subsection \<open>Tree building\<close>

definition empty_line_node :: "nat \<Rightarrow> node" where
  "empty_line_node n = object_literal\<lparr>ntype := ''EmptyLine'', lineNumber := n\<rparr>"

text \<open>
  The loop of \<^verbatim>\<open>createAST\<close>, at line index \<open>i\<close>: the current context, the block stack
  (its top is the last element), the body and the complexity count so far.
\<close>

fun createAST_loop ::
  "converter \<Rightarrow> string list \<Rightarrow> nat \<Rightarrow> nat option \<Rightarrow> nat list \<Rightarrow> node list \<Rightarrow> nat
   \<Rightarrow> node list \<times> nat" where
  "createAST_loop h [] i currentContext blockStack bd cx = (bd, cx)"
| "createAST_loop h (ln # rest) i currentContext blockStack bd cx =
     (if trim ln = []
      then createAST_loop h rest (Suc i) currentContext blockStack
             (bd @ [empty_line_node (i + 1)]) cx
      else
        let nd = parseLineToNode h ln (i + 1) currentContext;
            cx' = (if ntype nd = ''FunctionDefinition'' \<or> ntype nd = ''ClassDefinition''
                   then cx + 1 else cx)
        in if isBlockStart h nd
           then createAST_loop h rest (Suc i) (Some (lineNumber nd))
                  (blockStack @ [lineNumber nd]) (bd @ [nd]) cx'
           else if isBlockEnd h (trim ln)
           then createAST_loop h rest (Suc i)
                  (if butlast blockStack = [] then None else Some (last (butlast blockStack)))
                  (butlast blockStack) (bd @ [nd]) cx'
           else createAST_loop h rest (Suc i) currentContext blockStack (bd @ [nd]) cx')"

definition createAST :: "converter \<Rightarrow> string \<Rightarrow> ast" where
  "createAST h sourceCode =
     (case createAST_loop h (split_lines sourceCode) 0 None [] [] 0 of
        (bd, cx) \<Rightarrow>
          \<lparr>atype = ''Program'', abody = bd, sourceLanguage = languageName h,
           originalCode = sourceCode,
           ameta = Some \<lparr>totalLines = length (split_lines sourceCode), complexity = cx\<rparr>\<rparr>)"

subsection \<open>Comment re-insertion\<close>

text \<open>
  \<^verbatim>\<open>commentMap.has(node.line - 1)\<close>: the key \<open>-1\<close> of a node at line 0 is never in the
  map. \<^verbatim>\<open>comments[commentIndex]\<close> beyond the array is \<^verbatim>\<open>undefined\<close>, and reading its
  \<^verbatim>\<open>type\<close> throws: the loop then has no result.
\<close>

fun restore_loop ::
  "node list \<Rightarrow> comment list \<Rightarrow> (nat \<Rightarrow> nat option) \<Rightarrow> node list \<Rightarrow> node list option" where
  "restore_loop [] cs cm newBody = Some newBody"
| "restore_loop (nd # rest) cs cm newBody =
     (case (if lineNumber nd = 0 then None else cm (lineNumber nd - 1)) of
        None \<Rightarrow> restore_loop rest cs cm (newBody @ [nd])
      | Some commentIndex \<Rightarrow>
          if commentIndex < length cs
          then (case ckind (cs ! commentIndex) of
                  FullLine \<Rightarrow>
                    restore_loop rest cs cm
                      (newBody @
                       [object_literal\<lparr>ntype := ''Comment'',
                          content := Some (ccontent (cs ! commentIndex)),
                          lineNumber := coriginalLine (cs ! commentIndex) + 1,
                          indentation := cindentation (cs ! commentIndex)\<rparr>,
                        nd])
                | Inline \<Rightarrow>
                    restore_loop rest cs cm
                      (newBody @ [nd\<lparr>inlineComment := Some (ccontent (cs ! commentIndex))\<rparr>]))
          else None)"

definition restoreCommentsToAST ::
  "ast \<Rightarrow> comment list \<Rightarrow> (nat \<Rightarrow> nat option) \<Rightarrow> ast option" where
  "restoreCommentsToAST a cs cm =
     map_option (\<lambda>newBody. a\<lparr>abody := newBody\<rparr>) (restore_loop (abody a) cs cm [])"

subsection \<open>\<^verbatim>\<open>BaseLanguageConverter.parseToAST\<close>\<close>

definition parseToAST :: "converter \<Rightarrow> string \<Rightarrow> string + (ast \<times> warning list)" where
  "parseToAST h sourceCode =
     (let ws = validateSyntax h sourceCode;
          ex = extractCommentsWithContext h sourceCode;
          a = createAST h (cleanCode ex)
      in case restoreCommentsToAST a (comments ex) (commentMap ex) of
           None \<Rightarrow>
             Inl (''Failed to parse '' @ languageName h
                  @ '' code: Cannot read properties of undefined (reading 'type')'')
         | Some a' \<Rightarrow> Inr (a', ws))"

subsection \<open>What the tree builder relies on, and the extraction line by line\<close>

text \<open>
  \<^verbatim>\<open>parseToAST\<close> relies on two properties of the overridable methods, which hold of the
  base class's methods and of every override in the repository: the code part of a split
  line has no line feed when the line has none, and a parsing method returns a node that
  carries the line number it was given and whose type is not \<^verbatim>\<open>Comment\<close>.
\<close>

definition keeps_line_number ::
  "(string \<Rightarrow> nat \<Rightarrow> nat \<Rightarrow> nat option \<Rightarrow> node) \<Rightarrow> bool" where
  "keeps_line_number parse =
     (\<forall>t n ind ctx. lineNumber (parse t n ind ctx) = n \<and> ntype (parse t n ind ctx) \<noteq> ''Comment'')"

definition tidy_converter :: "converter \<Rightarrow> bool" where
  "tidy_converter h =
     ((\<forall>ln. LF \<notin> set ln \<longrightarrow> LF \<notin> set (fst (splitInlineComment h ln)))
      \<and> keeps_line_number (parseFunctionDefinition h)
      \<and> keeps_line_number (parseClassDefinition h)
      \<and> keeps_line_number (parseVariableAssignment h)
      \<and> keeps_line_number (parseControlFlow h))"








section \<open>Comment detection per language\<close>

subsection \<open>The base class\<close>

definition Base_isFullLineComment :: "string \<Rightarrow> bool" where
  "Base_isFullLineComment ln = False"

definition Base_hasInlineComment :: "string \<Rightarrow> bool" where
  "Base_hasInlineComment ln = False"

definition Base_splitInlineComment :: "string \<Rightarrow> string \<times> string" where
  "Base_splitInlineComment ln = (ln, [])"

subsection \<open>JavaScript\<close>

definition JavaScript_isFullLineComment :: "string \<Rightarrow> bool" where
  "JavaScript_isFullLineComment ln =
     (if ln = [] then False
      else startsWith ln ''//'' \<or> startsWith ln ''/*'' \<or> startsWith ln ''*/''
           \<or> startsWith ln ''*'' \<or> trim ln = [])"

text \<open>
  One match of \<^verbatim>\<open>(['"])((?:(?!\1)[^\\]|\\.)*)(\1)\<close> after its opening quote \<open>q\<close>: the
  text up to the closing quote and the text after it. A character other than the
  quote and the backslash is consumed by the first alternative, a backslash with the
  character after it (a line terminator excepted) by the second; no position offers both,
  so the match is found without backtracking, and it fails when the line ends first.
\<close>

fun scan_literal :: "char \<Rightarrow> string \<Rightarrow> (string \<times> string) option" where
  "scan_literal q [] = None"
| "scan_literal q [c] = (if c = q then Some ([], []) else None)"
| "scan_literal q (c # d # ds) =
     (if c = q then Some ([], d # ds)
      else if c = CHR 0x5C
      then (if is_line_terminator d then None
            else (case scan_literal q ds of
                    None \<Rightarrow> None
                  | Some (inner, rest) \<Rightarrow> Some (c # d # inner, rest)))
      else (case scan_literal q (d # ds) of
              None \<Rightarrow> None
            | Some (inner, rest) \<Rightarrow> Some (c # inner, rest)))"

lemma scan_literal_rest_shorter:
  "scan_literal q s = Some (inner, rest) \<Longrightarrow> length rest < length s"
  by (induction q s arbitrary: inner rest rule: scan_literal.induct)
     (fastforce split: if_splits option.splits)+

text \<open>
  \<^verbatim>\<open>line.split(re)\<close> with that expression: the array holds the text before a match, then
  the three captures (quote, inner text, quote), and goes on after the match; \<open>acc\<close> is
  the text since the last match, reversed.
\<close>

function split_literals :: "string \<Rightarrow> string \<Rightarrow> string list" where
  "split_literals acc [] = [rev acc]"
| "split_literals acc (c # cs) =
     (if c = CHR 0x27 \<or> c = CHR 0x22
      then (case scan_literal c cs of
              Some (inner, rest) \<Rightarrow> rev acc # [c] # inner # [c] # split_literals [] rest
            | None \<Rightarrow> split_literals (c # acc) cs)
      else split_literals (c # acc) cs)"
  by pat_completeness auto
termination
  by (relation "measure (\<lambda>(acc, s). length s)")
     (auto dest: scan_literal_rest_shorter)

text \<open>The elements at the indices 0, 4, 8, ...: the loop \<^verbatim>\<open>for (i = 0; ...; i += 4)\<close>.\<close>

fun every_fourth :: "'a list \<Rightarrow> 'a list" where
  "every_fourth (a # b # c # d # rest) = a # every_fourth rest"
| "every_fourth (a # rest) = [a]"
| "every_fourth [] = []"

definition JavaScript_hasInlineComment :: "string \<Rightarrow> bool" where
  "JavaScript_hasInlineComment ln =
     (if ln = [] then False
      else list_ex (\<lambda>part. part \<noteq> [] \<and> str_includes part ''//'')
             (every_fourth (split_literals [] ln)))"

definition JavaScript_splitInlineComment :: "string \<Rightarrow> string \<times> string" where
  "JavaScript_splitInlineComment ln =
     (case indexOf ln ''//'' of
        None \<Rightarrow> (ln, [])
      | Some commentIndex \<Rightarrow> (trim (take commentIndex ln), trim (drop commentIndex ln)))"

subsection \<open>Python\<close>

definition Python_isFullLineComment :: "string \<Rightarrow> bool" where
  "Python_isFullLineComment ln = (if ln = [] then False else startsWith (trim ln) ''#'')"

definition Python_hasInlineComment :: "string \<Rightarrow> bool" where
  "Python_hasInlineComment ln = (if ln = [] then False else str_includes ln ''#'')"

definition Python_splitInlineComment :: "string \<Rightarrow> string \<times> string" where
  "Python_splitInlineComment ln =
     (case indexOf ln ''#'' of
        None \<Rightarrow> (ln, [])
      | Some commentIndex \<Rightarrow> (trim (take commentIndex ln), trim (drop commentIndex ln)))"

section \<open>\<^verbatim>\<open>JavaScriptConverter.formatCode\<close>\<close>

text \<open>
  The class body declares \<^verbatim>\<open>formatCode\<close> twice; the later declaration replaces the
  earlier one, so the method that runs is the second: split into lines, trim each on the
  right, drop short and repeated \<^verbatim>\<open>//\<close> lines, join, replace \<^verbatim>\<open>/\n{3,}/g\<close> by two line
  feeds, and \<^verbatim>\<open>trim()\<close> the whole.

  The callback of \<^verbatim>\<open>filter\<close>: \<open>prevLine\<close> is the trimmed predecessor in the unfiltered
  array, the empty string at index 0.
\<close>

definition keeps_line :: "string \<Rightarrow> string \<Rightarrow> bool" where
  "keeps_line prevLine ln =
     (let trimmed = trim ln
      in if startsWith trimmed ''//''
         then (if length trimmed < 10 \<and> \<not> str_includes trimmed ''TODO''
                  \<and> \<not> str_includes trimmed ''FIXME''
               then False
               else if startsWith prevLine ''//'' \<and> trimmed = prevLine then False
               else True)
         else True)"

fun filter_comment_lines :: "string \<Rightarrow> string list \<Rightarrow> string list" where
  "filter_comment_lines prevLine [] = []"
| "filter_comment_lines prevLine (ln # rest) =
     (if keeps_line prevLine ln then ln # filter_comment_lines (trim ln) rest
      else filter_comment_lines (trim ln) rest)"

text \<open>
  \<^verbatim>\<open>replace(/\n{3,}/g, '\n\n')\<close>: \<open>n\<close> counts the line feeds of the run being read; a
  run of three or more is written as two, a shorter run as it is.
\<close>

fun collapse_newlines :: "nat \<Rightarrow> string \<Rightarrow> string" where
  "collapse_newlines n [] = replicate (if 3 \<le> n then 2 else n) LF"
| "collapse_newlines n (c # cs) =
     (if c = LF then collapse_newlines (Suc n) cs
      else replicate (if 3 \<le> n then 2 else n) LF @ c # collapse_newlines 0 cs)"

definition JavaScript_formatCode :: "string \<Rightarrow> string" where
  "JavaScript_formatCode src =
     (if src = [] then []
      else trim (collapse_newlines 0
                   (join_lines (filter_comment_lines [] (map trimEnd (split_lines src))))))"

section \<open>Syntax validation\<close>

text \<open>
  \<^verbatim>\<open>addWarning(message)\<close> appends a warning with no line and the converter's language name.
  The \<^verbatim>\<open>timestamp\<close> property is the wall clock's and is not modelled.
\<close>

definition addWarning :: "string \<Rightarrow> string \<Rightarrow> warning list \<Rightarrow> warning list" where
  "addWarning lang msg ws = ws @ [\<lparr>message = msg, wline = None, wlanguage = lang\<rparr>]"

definition count_chars :: "string \<Rightarrow> string \<Rightarrow> nat" where
  "count_chars cs src = length (filter (\<lambda>c. c \<in> set cs) src)"

text \<open>\<^verbatim>\<open>BaseLanguageConverter.validateSyntax\<close>, from an empty warnings list.\<close>

definition Base_validateSyntax :: "string \<Rightarrow> string \<Rightarrow> warning list" where
  "Base_validateSyntax lang src =
     (if 5000 < length (split_lines src)
      then addWarning lang ''Large file detected - some validations skipped for performance'' []
      else
        (let ws1 = (if count_chars ''([{'' src \<noteq> count_chars '')]}'' src
                    then addWarning lang ''Mismatched brackets detected'' []
                    else [])
         in if str_includes src ''undefined''
            then addWarning lang ''Potential undefined values detected'' ws1
            else ws1))"

text \<open>
  \<^verbatim>\<open>JavaConverter.validateSyntax\<close>: the base method first, then the method's own pass
  over all lines.
\<close>

definition Java_validateSyntax :: "string \<Rightarrow> warning list" where
  "Java_validateSyntax src =
     (let ws0 = Base_validateSyntax ''Java'' src;
          lns = map trim (split_lines src);
          hasClass = list_ex (\<lambda>ln. str_includes ln ''class '') lns;
          braceCount = (\<Sum>ln\<leftarrow>lns. int (count_chars ''{'' ln) - int (count_chars ''}'' ln));
          ws1 = (if hasClass then ws0
                 else addWarning ''Java'' ''Java code should contain at least one class'' ws0)
      in if braceCount \<noteq> 0 then addWarning ''Java'' ''Unmatched braces detected'' ws1 else ws1)"

section \<open>The JavaScript and the Java converter\<close>

text \<open>A natural number as \<^verbatim>\<open>${i + 1}\<close> prints it.\<close>

fun show_nat :: "nat \<Rightarrow> string" where
  "show_nat n =
     (if n < 10 then [char_of (48 + n)]
      else show_nat (n div 10) @ [char_of (48 + n mod 10)])"

declare show_nat.simps [simp del]

subsection \<open>The patterns of \<^verbatim>\<open>JavaScriptConverter\<close>\<close>

text \<open>
  \<^verbatim>\<open>function: /^function\s+(\w+)\s*\((.*?)\)\s*\{?$/\<close>,
  \<^verbatim>\<open>arrowFunction: /^(?:const|let|var)\s+(\w+)\s*=\s*(?:\((.*?)\)|(\w+))\s*=>\s*(.*)$/\<close>,
  \<^verbatim>\<open>class: /^class\s+(\w+)(?:\s+extends\s+(\w+))?\s*\{?$/\<close>,
  \<^verbatim>\<open>variable: /^(?:const|let|var)\s+(\w+)\s*=\s*(.+)$/\<close>,
  \<^verbatim>\<open>if: /^if\s*\((.*?)\)\s*\{?$/\<close> (\<^verbatim>\<open>for\<close> and \<^verbatim>\<open>while\<close> alike),
  \<^verbatim>\<open>try: /^try\s*\{?$/\<close>, and the two expressions written in the methods:
  \<^verbatim>\<open>/^(\w+)\s*=\s*(.+)$/\<close> and \<^verbatim>\<open>/^(const|let|var)/\<close>.
\<close>

definition declarator :: rx where
  "declarator = Alts [Lit ''const'', Lit ''let'', Lit ''var'']"

definition js_function :: rx where
  "js_function =
     Seqs [Bol, Lit ''function'', Plus Ws, Grp 1 (Plus Wd), Star Ws, Chr CHR ''('',
           Grp 2 (Lazy Dot), Chr CHR '')'', Star Ws, Opt (Chr CHR ''{''), Eol]"

definition js_arrowFunction :: rx where
  "js_arrowFunction =
     Seqs [Bol, declarator, Plus Ws, Grp 1 (Plus Wd), Star Ws, Chr CHR ''='', Star Ws,
           Alt (Seqs [Chr CHR ''('', Grp 2 (Lazy Dot), Chr CHR '')'']) (Grp 3 (Plus Wd)),
           Star Ws, Lit ''=>'', Star Ws, Grp 4 (Star Dot), Eol]"

definition js_class :: rx where
  "js_class =
     Seqs [Bol, Lit ''class'', Plus Ws, Grp 1 (Plus Wd),
           Opt (Seqs [Plus Ws, Lit ''extends'', Plus Ws, Grp 2 (Plus Wd)]),
           Star Ws, Opt (Chr CHR ''{''), Eol]"

definition js_variable :: rx where
  "js_variable =
     Seqs [Bol, declarator, Plus Ws, Grp 1 (Plus Wd), Star Ws, Chr CHR ''='', Star Ws,
           Grp 2 (Plus Dot), Eol]"

definition js_assignment :: rx where
  "js_assignment =
     Seqs [Bol, Grp 1 (Plus Wd), Star Ws, Chr CHR ''='', Star Ws, Grp 2 (Plus Dot), Eol]"

definition js_declarator_prefix :: rx where
  "js_declarator_prefix = Seq Bol (Grp 1 declarator)"

definition header_with_condition :: "string \<Rightarrow> rx" where
  "header_with_condition kw =
     Seqs [Bol, Lit kw, Star Ws, Chr CHR ''('', Grp 1 (Lazy Dot), Chr CHR '')'', Star Ws,
           Opt (Chr CHR ''{''), Eol]"

definition try_header :: rx where
  "try_header = Seqs [Bol, Lit ''try'', Star Ws, Opt (Chr CHR ''{''), Eol]"

definition JavaScript_isFunctionDefinition :: "string \<Rightarrow> bool" where
  "JavaScript_isFunctionDefinition ln = (rx_test js_function ln \<or> rx_test js_arrowFunction ln)"

definition JavaScript_isClassDefinition :: "string \<Rightarrow> bool" where
  "JavaScript_isClassDefinition ln = rx_test js_class ln"

definition JavaScript_isVariableAssignment :: "string \<Rightarrow> bool" where
  "JavaScript_isVariableAssignment ln =
     (rx_test js_variable ln
      \<or> (rx_test js_assignment ln \<and> \<not> str_includes ln ''function''
          \<and> \<not> str_includes ln ''class''))"

definition JavaScript_isControlFlow :: "string \<Rightarrow> bool" where
  "JavaScript_isControlFlow ln =
     (rx_test (header_with_condition ''if'') ln \<or> rx_test (header_with_condition ''for'') ln
      \<or> rx_test (header_with_condition ''while'') ln \<or> rx_test try_header ln)"

text \<open>
  \<^verbatim>\<open>text.split(',').map(p => p.trim()).filter(p => p)\<close>, and the text of a capture that
  took part in the match.
\<close>

definition split_parameters :: "string \<Rightarrow> string list" where
  "split_parameters s = filter (\<lambda>p. p \<noteq> []) (map trim (split_on CHR '','' s))"

definition captured :: "captures \<Rightarrow> nat \<Rightarrow> string" where
  "captured g i = (case capture g i of None \<Rightarrow> [] | Some s \<Rightarrow> s)"

text \<open>
  The parsing methods of \<^verbatim>\<open>JavaScriptConverter\<close> take no \<^verbatim>\<open>context\<close> and write none.
  For an arrow function without a parenthesised, non-empty parameter list the
  parameters are \<^verbatim>\<open>[arrowMatch[3]]\<close>; the \<^verbatim>\<open>undefined\<close> that this holds after \<^verbatim>\<open>()\<close> is
  the empty text here, which is how \<^verbatim>\<open>join\<close> prints it. The empty arrays written to
  \<^verbatim>\<open>methods\<close> and \<^verbatim>\<open>properties\<close> are the empty list and the empty text.
\<close>

definition JavaScript_parseFunctionDefinition ::
  "string \<Rightarrow> nat \<Rightarrow> nat \<Rightarrow> nat option \<Rightarrow> node" where
  "JavaScript_parseFunctionDefinition ln n ind ctx =
     (case rx_match js_function ln of
        Some functionMatch \<Rightarrow>
          object_literal\<lparr>ntype := ''FunctionDefinition'',
            name := Some (captured functionMatch 1),
            parameters := Some (split_parameters (captured functionMatch 2)),
            body := Some [], lineNumber := n, indent := Some ind, isArrow := Some False\<rparr>
      | None \<Rightarrow>
          (case rx_match js_arrowFunction ln of
             Some arrowMatch \<Rightarrow>
               object_literal\<lparr>ntype := ''FunctionDefinition'',
                 name := Some (captured arrowMatch 1),
                 parameters :=
                   Some (if captured arrowMatch 2 \<noteq> []
                         then split_parameters (captured arrowMatch 2)
                         else [captured arrowMatch 3]),
                 body := Some (if captured arrowMatch 4 \<noteq> [] then [captured arrowMatch 4] else []),
                 lineNumber := n, indent := Some ind, isArrow := Some True\<rparr>
           | None \<Rightarrow>
               object_literal\<lparr>ntype := ''FunctionDefinition'', originalLine := Some ln,
                 lineNumber := n, indent := Some ind\<rparr>))"

definition JavaScript_parseClassDefinition ::
  "string \<Rightarrow> nat \<Rightarrow> nat \<Rightarrow> nat option \<Rightarrow> node" where
  "JavaScript_parseClassDefinition ln n ind ctx =
     (case rx_match js_class ln of
        Some m \<Rightarrow>
          object_literal\<lparr>ntype := ''ClassDefinition'', name := Some (captured m 1),
            extends := (if captured m 2 \<noteq> [] then Some (captured m 2) else None),
            methods := Some [], properties := Some [], lineNumber := n, indent := Some ind\<rparr>
      | None \<Rightarrow>
          object_literal\<lparr>ntype := ''ClassDefinition'', originalLine := Some ln,
            lineNumber := n, indent := Some ind\<rparr>)"

definition JavaScript_parseVariableAssignment ::
  "string \<Rightarrow> nat \<Rightarrow> nat \<Rightarrow> nat option \<Rightarrow> node" where
  "JavaScript_parseVariableAssignment ln n ind ctx =
     (case rx_match js_variable ln of
        Some declMatch \<Rightarrow>
          object_literal\<lparr>ntype := ''VariableAssignment'', name := Some (captured declMatch 1),
            val := Some (captured declMatch 2),
            declarationType :=
              (case rx_match js_declarator_prefix ln of
                 Some m \<Rightarrow> Some (captured m 1) | None \<Rightarrow> None),
            lineNumber := n, indent := Some ind\<rparr>
      | None \<Rightarrow>
          (case rx_match js_assignment ln of
             Some assignMatch \<Rightarrow>
               object_literal\<lparr>ntype := ''VariableAssignment'',
                 name := Some (captured assignMatch 1), val := Some (captured assignMatch 2),
                 declarationType := None, lineNumber := n, indent := Some ind\<rparr>
           | None \<Rightarrow>
               object_literal\<lparr>ntype := ''VariableAssignment'', originalLine := Some ln,
                 lineNumber := n, indent := Some ind\<rparr>))"

definition control_flow_node :: "string \<Rightarrow> captures \<Rightarrow> nat \<Rightarrow> nat \<Rightarrow> node" where
  "control_flow_node kw m n ind =
     object_literal\<lparr>ntype := ''ControlFlow'', subtype := Some kw,
       condition := Some (captured m 1), lineNumber := n, indent := Some ind\<rparr>"

definition JavaScript_parseControlFlow ::
  "string \<Rightarrow> nat \<Rightarrow> nat \<Rightarrow> nat option \<Rightarrow> node" where
  "JavaScript_parseControlFlow ln n ind ctx =
     (case rx_match (header_with_condition ''if'') ln of
        Some m \<Rightarrow> control_flow_node ''if'' m n ind
      | None \<Rightarrow>
          (case rx_match (header_with_condition ''for'') ln of
             Some m \<Rightarrow> control_flow_node ''for'' m n ind
           | None \<Rightarrow>
               (case rx_match (header_with_condition ''while'') ln of
                  Some m \<Rightarrow> control_flow_node ''while'' m n ind
                | None \<Rightarrow>
                    object_literal\<lparr>ntype := ''ControlFlow'', originalLine := Some ln,
                      lineNumber := n, indent := Some ind\<rparr>)))"

subsection \<open>\<^verbatim>\<open>JavaScriptConverter.validateSyntax\<close>\<close>

text \<open>\<^verbatim>\<open>/^(const|let|var)\s+\w+\s*[^=]/\<close>\<close>

definition js_declaration_start :: rx where
  "js_declaration_start =
     Seqs [Bol, Grp 1 declarator, Plus Ws, Plus Wd, Star Ws, Cls (\<lambda>c. c \<noteq> CHR ''='')]"

fun JavaScript_validate_lines ::
  "string list \<Rightarrow> nat \<Rightarrow> int \<Rightarrow> warning list \<Rightarrow> int \<times> warning list" where
  "JavaScript_validate_lines [] i braceCount wl = (braceCount, wl)"
| "JavaScript_validate_lines (ln # rest) i braceCount wl =
     (if ln = [] \<or> startsWith (trim ln) ''//'' \<or> startsWith (trim ln) ''/*''
      then JavaScript_validate_lines rest (Suc i) braceCount wl
      else
        (let wl1 = (if str_includes (trim ln) ''function '' \<and> \<not> str_includes (trim ln) ''(''
                    then addWarning ''JavaScript''
                           (''Line '' @ show_nat (i + 1) @ '': Function definition may be incomplete'')
                           wl
                    else wl);
             wl2 = (if rx_test js_declaration_start (trim ln) \<and> \<not> str_includes (trim ln) ''=''
                    then addWarning ''JavaScript''
                           (''Line '' @ show_nat (i + 1)
                            @ '': Variable declaration without initialization'') wl1
                    else wl1)
         in JavaScript_validate_lines rest (Suc i)
              (braceCount + int (count_chars ''{'' ln) - int (count_chars ''}'' ln)) wl2))"

definition JavaScript_validateSyntax :: "string \<Rightarrow> warning list" where
  "JavaScript_validateSyntax src =
     (if src = [] then []
      else
        (case JavaScript_validate_lines (split_lines src) 0 0
                (Base_validateSyntax ''JavaScript'' src) of
           (braceCount, wl) \<Rightarrow>
             if braceCount \<noteq> 0
             then addWarning ''JavaScript'' ''Unmatched curly braces detected'' wl
             else wl))"

definition JavaScript_converter :: converter where
  "JavaScript_converter =
     \<lparr>languageName = ''JavaScript'',
      validateSyntax = JavaScript_validateSyntax,
      isFullLineComment = JavaScript_isFullLineComment,
      hasInlineComment = JavaScript_hasInlineComment,
      splitInlineComment = JavaScript_splitInlineComment,
      isFunctionDefinition = JavaScript_isFunctionDefinition,
      isClassDefinition = JavaScript_isClassDefinition,
      isVariableAssignment = JavaScript_isVariableAssignment,
      isControlFlow = JavaScript_isControlFlow,
      isImportExport = (\<lambda>ln. False),
      isBlockStart = (\<lambda>nd. False),
      isBlockEnd = (\<lambda>ln. False),
      parseFunctionDefinition = JavaScript_parseFunctionDefinition,
      parseClassDefinition = JavaScript_parseClassDefinition,
      parseVariableAssignment = JavaScript_parseVariableAssignment,
      parseControlFlow = JavaScript_parseControlFlow\<rparr>"

subsection \<open>\<^verbatim>\<open>JavaConverter\<close>\<close>

text \<open>
  \<^verbatim>\<open>class: /^(?:public\s+)?class\s+(\w+)(?:\s+extends\s+(\w+))?\s*\{?$/\<close>,
  \<^verbatim>\<open>method: /^(?:public\s+|private\s+|protected\s+)?(?:static\s+)?(\w+)\s+(\w+)\s*\((.*?)\)\s*\{?$/\<close>,
  \<^verbatim>\<open>variable: /^(?:public\s+|private\s+|protected\s+)?(?:static\s+|final\s+)*(\w+)\s+(\w+)\s*(?:=\s*(.+))?\s*;?$/\<close>;
  \<^verbatim>\<open>if\<close>, \<^verbatim>\<open>for\<close>, \<^verbatim>\<open>while\<close> and \<^verbatim>\<open>try\<close> are written as in the JavaScript class. The
  class overrides no comment method and no parsing method.
\<close>

definition visibility :: rx where
  "visibility =
     Opt (Alts [Seq (Lit ''public'') (Plus Ws), Seq (Lit ''private'') (Plus Ws),
                Seq (Lit ''protected'') (Plus Ws)])"

definition java_class :: rx where
  "java_class =
     Seqs [Bol, Opt (Seq (Lit ''public'') (Plus Ws)), Lit ''class'', Plus Ws, Grp 1 (Plus Wd),
           Opt (Seqs [Plus Ws, Lit ''extends'', Plus Ws, Grp 2 (Plus Wd)]),
           Star Ws, Opt (Chr CHR ''{''), Eol]"

definition java_method :: rx where
  "java_method =
     Seqs [Bol, visibility, Opt (Seq (Lit ''static'') (Plus Ws)), Grp 1 (Plus Wd), Plus Ws,
           Grp 2 (Plus Wd), Star Ws, Chr CHR ''('', Grp 3 (Lazy Dot), Chr CHR '')'', Star Ws,
           Opt (Chr CHR ''{''), Eol]"

definition java_variable :: rx where
  "java_variable =
     Seqs [Bol, visibility,
           Star (Alt (Seq (Lit ''static'') (Plus Ws)) (Seq (Lit ''final'') (Plus Ws))),
           Grp 1 (Plus Wd), Plus Ws, Grp 2 (Plus Wd), Star Ws,
           Opt (Seqs [Chr CHR ''='', Star Ws, Grp 3 (Plus Dot)]),
           Star Ws, Opt (Chr CHR '';''), Eol]"

definition Java_isFunctionDefinition :: "string \<Rightarrow> bool" where
  "Java_isFunctionDefinition ln = (rx_test java_method ln \<and> \<not> str_includes ln ''class '')"

definition Java_isClassDefinition :: "string \<Rightarrow> bool" where
  "Java_isClassDefinition ln = rx_test java_class ln"

definition Java_isVariableAssignment :: "string \<Rightarrow> bool" where
  "Java_isVariableAssignment ln = rx_test java_variable ln"

definition Java_isControlFlow :: "string \<Rightarrow> bool" where
  "Java_isControlFlow ln =
     (rx_test (header_with_condition ''if'') ln \<or> rx_test (header_with_condition ''for'') ln
      \<or> rx_test (header_with_condition ''while'') ln \<or> rx_test try_header ln)"

definition Java_converter :: converter where
  "Java_converter =
     \<lparr>languageName = ''Java'',
      validateSyntax = Java_validateSyntax,
      isFullLineComment = Base_isFullLineComment,
      hasInlineComment = Base_hasInlineComment,
      splitInlineComment = Base_splitInlineComment,
      isFunctionDefinition = Java_isFunctionDefinition,
      isClassDefinition = Java_isClassDefinition,
      isVariableAssignment = Java_isVariableAssignment,
      isControlFlow = Java_isControlFlow,
      isImportExport = (\<lambda>ln. False),
      isBlockStart = (\<lambda>nd. False),
      isBlockEnd = (\<lambda>ln. False),
      parseFunctionDefinition = Base_parseFunctionDefinition,
      parseClassDefinition = Base_parseClassDefinition,
      parseVariableAssignment = Base_parseVariableAssignment,
      parseControlFlow = Base_parseControlFlow\<rparr>"

section \<open>The re-indentation pass of the brace languages\<close>

text \<open>
  The \<^verbatim>\<open>formatCode\<close> methods of the brace languages share one loop over the lines of the
  pre-processed text and differ in four places, the fields of \<open>indent_rules\<close>: which
  trimmed lines are skipped, which lines lower the level before they are pushed, the
  indentation unit, and by how much a line raises the level after it is pushed.

  The loop keeps \<^verbatim>\<open>formatted\<close> and \<^verbatim>\<open>indentLevel\<close>; the model also records, for every
  non-blank line pushed, the level it was pushed at. \<^verbatim>\<open>unit.repeat(indentLevel)\<close> is
  defined for a level that is not negative.
\<close>

record indent_rules =
  skips :: "string \<Rightarrow> bool"
  closes :: "string \<Rightarrow> bool"
  indent_unit :: string
  opens :: "string \<Rightarrow> nat"

fun format_loop ::
  "indent_rules \<Rightarrow> string list \<Rightarrow> string list \<Rightarrow> int list \<Rightarrow> int
   \<Rightarrow> string list \<times> int list \<times> int" where
  "format_loop R [] formatted levels indentLevel = (formatted, levels, indentLevel)"
| "format_loop R (ln # rest) formatted levels indentLevel =
     (if trim ln = []
      then (if formatted \<noteq> [] \<and> last formatted \<noteq> []
            then format_loop R rest (formatted @ [[]]) levels indentLevel
            else format_loop R rest formatted levels indentLevel)
      else if skips R (trim ln) then format_loop R rest formatted levels indentLevel
      else
        (let lvl = (if closes R (trim ln) then max 0 (indentLevel - 1) else indentLevel)
         in format_loop R rest
              (formatted @ [concat (replicate (nat lvl) (indent_unit R)) @ trim ln])
              (levels @ [lvl])
              (lvl + int (opens R (trim ln)))))"

text \<open>
  The end of every \<^verbatim>\<open>formatCode\<close>: \<^verbatim>\<open>replace(/\n{3,}/g, '\n\n')\<close>, then
  \<^verbatim>\<open>replace(/^\n+/, '')\<close>, which drops the leading line feeds, then
  \<^verbatim>\<open>replace(/\n*$/, '\n')\<close>, whose leftmost match is the whole trailing run of line feeds
  (empty when there is none), replaced by one line feed.
\<close>

definition strip_leading_newlines :: "string \<Rightarrow> string" where
  "strip_leading_newlines s = dropWhile (\<lambda>c. c = LF) s"

definition single_trailing_newline :: "string \<Rightarrow> string" where
  "single_trailing_newline s = rev (dropWhile (\<lambda>c. c = LF) (rev s)) @ [LF]"

definition finish_format :: "string list \<Rightarrow> string" where
  "finish_format formatted =
     single_trailing_newline (strip_leading_newlines (collapse_newlines 0 (join_lines formatted)))"

text \<open>The steps of the pre-processing that the brace languages share.\<close>

definition drop_double_semicolons :: "string \<Rightarrow> string" where
  "drop_double_semicolons s =
     replace_all (Seqs [Chr CHR '';'', Star Ws, Chr CHR '';'']) [T '';''] s"

definition break_after_semicolons :: "string \<Rightarrow> string" where
  "break_after_semicolons s =
     replace_all (Seq (Chr CHR '';'') no_newline_ahead) [T '';\<newline>''] s"

definition break_around_braces :: "string \<Rightarrow> string" where
  "break_around_braces s =
     replace_all (Seq (Chr CHR ''}'') no_newline_ahead) [T ''\<newline>}\<newline>'']
       (replace_all (Seq (Chr CHR ''{'') no_newline_ahead) [T '' {\<newline>''] s)"

definition keywords_single_space :: "string list \<Rightarrow> string \<Rightarrow> string" where
  "keywords_single_space kws s =
     replace_all (Seq (Grp 1 (Alts (map Lit kws))) (Plus Ws)) [G 1, T '' ''] s"

definition keywords_before_paren :: "string list \<Rightarrow> string \<Rightarrow> string" where
  "keywords_before_paren kws s =
     replace_all (Seqs [Grp 1 (Alts (map Lit kws)), Star Ws, Chr CHR ''(''])
       [G 1, T '' (''] s"

definition paren_brace_single_space :: "string \<Rightarrow> string" where
  "paren_brace_single_space s =
     replace_all (Seqs [Chr CHR '')'', Star Ws, Chr CHR ''{'']) [T '') {''] s"

subsection \<open>Kotlin\<close>

definition Kotlin_preprocess :: "string \<Rightarrow> string" where
  "Kotlin_preprocess src =
     paren_brace_single_space
       (keywords_single_space
          [''fun'', ''class'', ''interface'', ''object'', ''enum'', ''if'', ''else'', ''for'',
           ''while'', ''when'', ''try'', ''catch'', ''finally'']
          (break_around_braces (break_after_semicolons (drop_double_semicolons src))))"

definition closing_brace_line :: "string \<Rightarrow> bool" where
  "closing_brace_line trimmed = (trimmed = ''}'' \<or> startsWith trimmed ''} '')"

definition Kotlin_rules :: indent_rules where
  "Kotlin_rules =
     \<lparr>skips = (\<lambda>trimmed. trimmed = '';''),
      closes = closing_brace_line,
      indent_unit = ''    '',
      opens = (\<lambda>trimmed. if endsWith trimmed ''{'' then 1 else 0)\<rparr>"

definition Kotlin_format_loop :: "string \<Rightarrow> string list \<times> int list \<times> int" where
  "Kotlin_format_loop src = format_loop Kotlin_rules (split_lines (Kotlin_preprocess src)) [] [] 0"

definition Kotlin_formatCode :: "string \<Rightarrow> string" where
  "Kotlin_formatCode src = (if src = [] then [] else finish_format (fst (Kotlin_format_loop src)))"

subsection \<open>Java\<close>

definition Java_preprocess :: "string \<Rightarrow> string" where
  "Java_preprocess src =
     paren_brace_single_space
       (keywords_before_paren
          [''if'', ''else'', ''for'', ''while'', ''do'', ''try'', ''catch'', ''finally'', ''switch'']
          (keywords_single_space [''class'', ''interface'', ''enum'']
             (keywords_single_space
                [''public'', ''private'', ''protected'', ''static'', ''final'', ''abstract'']
                (break_around_braces (break_after_semicolons (drop_double_semicolons src))))))"

text \<open>\<^verbatim>\<open>/^(if|else|for|while|do|try|catch|finally|switch)\b.*\)\s*$/\<close>\<close>

definition control_header :: rx where
  "control_header =
     Seqs [Bol,
           Grp 1 (Alts (map Lit [''if'', ''else'', ''for'', ''while'', ''do'', ''try'', ''catch'',
                                 ''finally'', ''switch''])),
           WordB, Star Dot, Chr CHR '')'', Star Ws, Eol]"

text \<open>\<^verbatim>\<open>/^(public|private|protected).*\{$/\<close>\<close>

definition modifier_block :: rx where
  "modifier_block =
     Seqs [Bol, Grp 1 (Alts (map Lit [''public'', ''private'', ''protected''])), Star Dot,
           Chr CHR ''{'', Eol]"

definition Java_rules :: indent_rules where
  "Java_rules =
     \<lparr>skips = (\<lambda>trimmed. trimmed = '';''),
      closes = closing_brace_line,
      indent_unit = ''    '',
      opens = (\<lambda>trimmed.
        (if endsWith trimmed ''{'' \<or> rx_test control_header trimmed then 1 else 0) +
        (if (str_includes trimmed ''class '' \<or> str_includes trimmed ''interface ''
             \<or> str_includes trimmed ''enum '' \<or> rx_test modifier_block trimmed)
            \<and> \<not> endsWith trimmed ''{''
         then 1 else 0))\<rparr>"

definition Java_format_loop :: "string \<Rightarrow> string list \<times> int list \<times> int" where
  "Java_format_loop src = format_loop Java_rules (split_lines (Java_preprocess src)) [] [] 0"

definition Java_formatCode :: "string \<Rightarrow> string" where
  "Java_formatCode src = (if src = [] then [] else finish_format (fst (Java_format_loop src)))"

text \<open>
  Balanced braces of a text: reading from the left, no closing brace without an open one
  before it, and none left open at the end.
\<close>

fun brace_depth :: "nat \<Rightarrow> string \<Rightarrow> bool" where
  "brace_depth d [] = (d = 0)"
| "brace_depth d (c # cs) =
     (if c = CHR ''{'' then brace_depth (Suc d) cs
      else if c = CHR ''}'' then (case d of 0 \<Rightarrow> False | Suc d' \<Rightarrow> brace_depth d' cs)
      else brace_depth d cs)"

definition balanced_braces :: "string \<Rightarrow> bool" where
  "balanced_braces s = brace_depth 0 s"

section \<open>\<^verbatim>\<open>PythonConverter\<close>\<close>

text \<open>
  \<^verbatim>\<open>s.substring(a, b)\<close> (the two indices are swapped when \<open>a > b\<close>) and
  \<^verbatim>\<open>s.slice(a, -1)\<close>.
\<close>

definition substring :: "string \<Rightarrow> nat \<Rightarrow> nat \<Rightarrow> string" where
  "substring s a b = take (max a b - min a b) (drop (min a b) s)"

definition slice_to_last :: "string \<Rightarrow> nat \<Rightarrow> string" where
  "slice_to_last s a = take (length s - 1 - a) (drop a s)"

text \<open>\<^verbatim>\<open>s.replace(/\bw\b/g, t)\<close> for a word \<open>w\<close>.\<close>

definition replace_word :: "string \<Rightarrow> string \<Rightarrow> string \<Rightarrow> string" where
  "replace_word w t s = replace_all (Seqs [WordB, Lit w, WordB]) [T t] s"

definition convertPythonCondition :: "string \<Rightarrow> string" where
  "convertPythonCondition cond =
     replace_word ''None'' ''null''
       (replace_word ''False'' ''false''
          (replace_word ''True'' ''true''
             (replace_word ''not'' ''!''
                (replace_word ''or'' ''||'' (replace_word ''and'' ''&&'' cond)))))"

definition convertPythonExpression :: "string \<Rightarrow> string" where
  "convertPythonExpression expr =
     trim (replace_word ''None'' ''null''
             (replace_word ''False'' ''false'' (replace_word ''True'' ''true'' expr)))"

text \<open>
  \<^verbatim>\<open>convertPythonPrint\<close>: in an f-string \<^verbatim>\<open>/\{([^}]+)\}/g\<close> is replaced by \<^verbatim>\<open>'${$1}'\<close>
  (a dollar sign before a brace is literal), then \<^verbatim>\<open>/^/\<close> and \<^verbatim>\<open>/$/\<close> by a backtick.
\<close>

definition convertPythonPrint :: "string \<Rightarrow> string" where
  "convertPythonPrint s =
     (if startsWith s (''f'' @ [CHR 0x22]) \<or> startsWith s (''f'' @ [CHR 0x27])
      then replace_first Eol [T ''`'']
             (replace_first Bol [T ''`'']
                (replace_all
                   (Seqs [Chr CHR ''{'', Grp 1 (Plus (Cls (\<lambda>c. c \<noteq> CHR ''}''))), Chr CHR ''}''])
                   [T ''${'', G 1, T ''}'']
                   (substring s 2 (length s - 1))))
      else s)"

text \<open>
  \<^verbatim>\<open>/^def\s+(\w+)\s*\((.*?)\)\s*:$/\<close>,
  \<^verbatim>\<open>/^for\s+(\w+)\s+in\s+range\s*\((.*?)\)\s*:$/\<close> and \<^verbatim>\<open>/print\s*\((.*?)\)$/\<close>.
\<close>

definition py_def :: rx where
  "py_def =
     Seqs [Bol, Lit ''def'', Plus Ws, Grp 1 (Plus Wd), Star Ws, Chr CHR ''('',
           Grp 2 (Lazy Dot), Chr CHR '')'', Star Ws, Chr CHR '':'', Eol]"

definition py_for_range :: rx where
  "py_for_range =
     Seqs [Bol, Lit ''for'', Plus Ws, Grp 1 (Plus Wd), Plus Ws, Lit ''in'', Plus Ws,
           Lit ''range'', Star Ws, Chr CHR ''('', Grp 2 (Lazy Dot), Chr CHR '')'', Star Ws,
           Chr CHR '':'', Eol]"

definition py_print :: rx where
  "py_print =
     Seqs [Lit ''print'', Star Ws, Chr CHR ''('', Grp 1 (Lazy Dot), Chr CHR '')'', Eol]"

text \<open>
  \<^verbatim>\<open>convertPythonLineToJS\<close>. A branch whose expression does not match falls through to
  the branches after it, as in the source.
\<close>

definition convert_default :: "string \<Rightarrow> string" where
  "convert_default ln =
     (if endsWith (convertPythonExpression ln) '';'' then convertPythonExpression ln
      else convertPythonExpression ln @ '';'')"

definition convert_print :: "string \<Rightarrow> string" where
  "convert_print ln =
     (case (if startsWith ln ''print('' then rx_match py_print ln else None) of
        Some m \<Rightarrow> ''console.log('' @ convertPythonPrint (captured m 1) @ '');''
      | None \<Rightarrow> convert_default ln)"

definition convert_return :: "string \<Rightarrow> string" where
  "convert_return ln =
     (if startsWith ln ''return ''
      then ''return '' @ convertPythonExpression (drop 7 ln) @ '';''
      else convert_print ln)"

definition convert_for :: "string \<Rightarrow> string" where
  "convert_for ln =
     (case (if startsWith ln ''for '' \<and> str_includes ln '' in range('' \<and> endsWith ln '':''
            then rx_match py_for_range ln else None) of
        Some m \<Rightarrow>
          ''for (let '' @ captured m 1 @ '' = 0; '' @ captured m 1 @ '' < '' @ captured m 2
          @ ''; '' @ captured m 1 @ ''++) {''
      | None \<Rightarrow> convert_return ln)"

definition convert_if :: "string \<Rightarrow> string" where
  "convert_if ln =
     (if startsWith ln ''if '' \<and> endsWith ln '':''
      then ''if ('' @ convertPythonCondition (trim (slice_to_last ln 3)) @ '') {''
      else convert_for ln)"

definition convertPythonLineToJS :: "string \<Rightarrow> string" where
  "convertPythonLineToJS ln =
     (if ln = [] then []
      else
        (case (if startsWith ln ''def '' \<and> endsWith ln '':'' then rx_match py_def ln else None) of
           Some m \<Rightarrow> ''function '' @ captured m 1 @ ''('' @ captured m 2 @ '') {''
         | None \<Rightarrow> convert_if ln))"

definition getBlockType :: "string \<Rightarrow> string option" where
  "getBlockType ln =
     (if startsWith ln ''def '' then Some ''function''
      else if startsWith ln ''class '' then Some ''class''
      else if startsWith ln ''if '' then Some ''if''
      else if startsWith ln ''for '' then Some ''for''
      else if startsWith ln ''while '' then Some ''while''
      else if startsWith ln ''try'' then Some ''try''
      else None)"

definition getIndentLevel :: "string \<Rightarrow> nat" where
  "getIndentLevel ln = (if ln = [] then 0 else length ln - length (trimStart ln))"

definition addIndent :: "string \<Rightarrow> nat \<Rightarrow> string" where
  "addIndent ln level = (if trim ln = [] then ln else replicate level CHR '' '' @ ln)"

text \<open>
  The block stack holds the type and the indentation of the open blocks, the top first.
  \<^verbatim>\<open>closeBlocksIfNeeded\<close> pops the blocks that are not indented less than the current
  line and pushes a closing brace for each.
\<close>

fun closeBlocksIfNeeded ::
  "string list \<Rightarrow> (string \<times> nat) list \<Rightarrow> nat \<Rightarrow> string list \<times> (string \<times> nat) list" where
  "closeBlocksIfNeeded jsLines [] currentIndent = (jsLines, [])"
| "closeBlocksIfNeeded jsLines ((t, ind) # blockStack) currentIndent =
     (if currentIndent \<le> ind
      then closeBlocksIfNeeded (jsLines @ [addIndent ''}'' ind]) blockStack currentIndent
      else (jsLines, (t, ind) # blockStack))"

fun convert_lines ::
  "string list \<Rightarrow> string list \<Rightarrow> (string \<times> nat) list \<Rightarrow> string list" where
  "convert_lines [] jsLines blockStack =
     jsLines @ map (\<lambda>(t, ind). addIndent ''}'' ind) blockStack"
| "convert_lines (ln # rest) jsLines blockStack =
     (if trim ln = [] \<or> startsWith (trim ln) ''#''
      then convert_lines rest (jsLines @ [ln]) blockStack
      else
        (case closeBlocksIfNeeded jsLines blockStack (getIndentLevel ln) of
           (jsLines', blockStack') \<Rightarrow>
             convert_lines rest
               (jsLines' @ [addIndent (convertPythonLineToJS (trim ln)) (getIndentLevel ln)])
               (if endsWith (trim ln) '':''
                then (case getBlockType (trim ln) of
                        Some t \<Rightarrow> (t, getIndentLevel ln) # blockStack'
                      | None \<Rightarrow> blockStack')
                else blockStack')))"

text \<open>
  \<^verbatim>\<open>PythonConverter.formatCode\<close>. The keywords, the expression
  \<^verbatim>\<open>/(def|...|with)\s+[^:\n]*:(?!\s*[\r\n])/g\<close> replaced by \<^verbatim>\<open>'$&\n'\<close>, then
  \<^verbatim>\<open>/\b(def|...|with)\s+/g\<close> replaced by \<^verbatim>\<open>'\n$1 '\<close>, then \<^verbatim>\<open>/^\n/\<close> removed; in the loop
  \<^verbatim>\<open>/^(else|elif|except|finally)\b/\<close> and \<^verbatim>\<open>/^(def|...|with)\b.*:$/\<close>.
\<close>

definition py_keywords :: rx where
  "py_keywords =
     Alts (map Lit [''def'', ''class'', ''if'', ''elif'', ''else'', ''for'', ''while'', ''try'',
                    ''except'', ''finally'', ''with''])"

definition Python_preprocess :: "string \<Rightarrow> string" where
  "Python_preprocess src =
     replace_first (Seq Bol (Chr LF)) []
       (replace_all (Seqs [WordB, Grp 1 py_keywords, Plus Ws]) [T ''\<newline>'', G 1, T '' '']
          (replace_all
             (Seqs [Grp 1 py_keywords, Plus Ws, Star (Cls (\<lambda>c. c \<noteq> CHR '':'' \<and> c \<noteq> LF)),
                    Chr CHR '':'', no_newline_ahead])
             [Whole, T ''\<newline>'']
             (break_after_semicolons (drop_double_semicolons src))))"

definition py_dedent :: rx where
  "py_dedent =
     Seqs [Bol, Grp 1 (Alts (map Lit [''else'', ''elif'', ''except'', ''finally''])), WordB]"

definition py_block_header :: rx where
  "py_block_header = Seqs [Bol, Grp 1 py_keywords, WordB, Star Dot, Chr CHR '':'', Eol]"

definition Python_rules :: indent_rules where
  "Python_rules =
     \<lparr>skips = (\<lambda>trimmed. trimmed = '';''),
      closes = rx_test py_dedent,
      indent_unit = ''    '',
      opens = (\<lambda>trimmed.
        (if rx_test py_block_header trimmed then 1 else 0) +
        (if rx_test py_dedent trimmed \<and> endsWith trimmed '':'' then 1 else 0))\<rparr>"

definition Python_formatCode :: "string \<Rightarrow> string" where
  "Python_formatCode src =
     (if src = [] then []
      else finish_format
             (fst (format_loop Python_rules (split_lines (Python_preprocess src)) [] [] 0)))"

definition convertPythonToJS :: "string \<Rightarrow> string" where
  "convertPythonToJS pythonCode =
     Python_formatCode (join_lines (convert_lines (split_lines pythonCode) [] []))"


definition Python_generateFromAST :: "ast \<Rightarrow> string" where
  "Python_generateFromAST a = convertPythonToJS (originalCode a)"

section \<open>The node formatters\<close>

text \<open>
  JavaScript's view of an optional text: \<^verbatim>\<open>if (x)\<close> holds of a text that is present and
  not empty, \<^verbatim>\<open>${x}\<close> prints an absent one as \<^verbatim>\<open>undefined\<close>, and \<^verbatim>\<open>x || d\<close> is \<open>d\<close> unless
  \<open>x\<close> is truthy. A method that returns a falsy \<^verbatim>\<open>originalLine\<close> returns the empty text
  here, which is what \<^verbatim>\<open>nodeToCode\<close> makes of it.
\<close>

definition truthy :: "string option \<Rightarrow> bool" where
  "truthy x = (case x of None \<Rightarrow> False | Some s \<Rightarrow> s \<noteq> [])"

definition shown :: "string option \<Rightarrow> string" where
  "shown x = (case x of None \<Rightarrow> ''undefined'' | Some s \<Rightarrow> s)"

definition or_else :: "string option \<Rightarrow> string \<Rightarrow> string" where
  "or_else x d = (if truthy x then shown x else d)"

text \<open>\<^verbatim>\<open>node.parameters ? node.parameters.join(', ') : ''\<close> and \<^verbatim>\<open>x ? `pre${x}` : ''\<close>.\<close>

definition joined_parameters :: "node \<Rightarrow> string" where
  "joined_parameters nd =
     (case parameters nd of None \<Rightarrow> [] | Some ps \<Rightarrow> join_with '', '' ps)"

definition clause :: "string \<Rightarrow> string option \<Rightarrow> string" where
  "clause pre x = (if truthy x then pre @ shown x else [])"

text \<open>
  The methods of the base class, which a language class inherits unless it overrides
  them.
\<close>

definition Base_format :: "node \<Rightarrow> string" where
  "Base_format nd = or_else (originalLine nd) []"

subsection \<open>\<^verbatim>\<open>formatExpression\<close>\<close>

text \<open>
  The statement terminator: JavaScript, Java and C# append a semicolon to a trimmed line
  that is not empty and does not end in a semicolon or a brace; C++, PHP and Rust have
  further exemptions.
\<close>

definition lacks_terminator :: "string \<Rightarrow> bool" where
  "lacks_terminator ln =
     (ln \<noteq> [] \<and> \<not> endsWith ln '';'' \<and> \<not> endsWith ln ''{'' \<and> \<not> endsWith ln ''}'')"

fun needs_semicolon :: "language \<Rightarrow> string \<Rightarrow> bool" where
  "needs_semicolon JavaScript ln = lacks_terminator ln"
| "needs_semicolon Java ln = lacks_terminator ln"
| "needs_semicolon CSharp ln = lacks_terminator ln"
| "needs_semicolon Cpp ln =
     (lacks_terminator ln \<and> \<not> startsWith ln ''#'' \<and> \<not> str_includes ln ''namespace '')"
| "needs_semicolon Php ln =
     (lacks_terminator ln \<and> \<not> startsWith ln ''<?php'' \<and> \<not> str_includes ln ''namespace '')"
| "needs_semicolon Rust ln =
     (lacks_terminator ln \<and> \<not> str_includes ln ''if '' \<and> \<not> str_includes ln ''for ''
      \<and> \<not> str_includes ln ''while '' \<and> \<not> str_includes ln ''match ''
      \<and> \<not> str_includes ln ''loop '')"
| "needs_semicolon Go ln = False"
| "needs_semicolon Kotlin ln = False"
| "needs_semicolon TypeScript ln = False"
| "needs_semicolon Python ln = False"

definition terminated :: "language \<Rightarrow> string \<Rightarrow> string" where
  "terminated l ln = (if needs_semicolon l ln then ln @ '';'' else ln)"

fun formatExpression :: "language \<Rightarrow> node \<Rightarrow> string" where
  "formatExpression TypeScript nd = Base_format nd"
| "formatExpression Python nd =
     (if \<not> truthy (originalLine nd) then []
      else if trim (shown (originalLine nd)) = [] \<or> startsWith (trim (shown (originalLine nd))) ''#''
      then []
      else convertPythonLineToJS (trim (shown (originalLine nd))))"
| "formatExpression l nd =
     (if \<not> truthy (originalLine nd) then []
      else terminated l (trim (shown (originalLine nd))))"

subsection \<open>\<^verbatim>\<open>formatFunctionDefinition\<close>\<close>

text \<open>
  A body element of a structured node is the text that the JavaScript parser stores;
  \<^verbatim>\<open>nodeToCode\<close> and \<^verbatim>\<open>convertBodyNode\<close> find no \<^verbatim>\<open>type\<close> in a text and return the empty
  text, so the loops over the body append nothing.
\<close>

definition nodeToCode_of_text :: "string \<Rightarrow> string" where
  "nodeToCode_of_text t = []"

definition body_lines :: "node \<Rightarrow> string" where
  "body_lines nd =
     (case body nd of
        None \<Rightarrow> []
      | Some bs \<Rightarrow>
          concat (map (\<lambda>b. if nodeToCode_of_text b \<noteq> []
                            then ''  '' @ nodeToCode_of_text b @ ''\<newline>'' else []) bs))"

definition converted_body :: "node \<Rightarrow> string" where
  "converted_body nd =
     (case body nd of None \<Rightarrow> [] | Some bs \<Rightarrow> concat (map nodeToCode_of_text bs))"

fun formatFunctionDefinition :: "language \<Rightarrow> node \<Rightarrow> string" where
  "formatFunctionDefinition JavaScript nd =
     (if truthy (originalLine nd)
      then (case (if startsWith (trim (shown (originalLine nd))) ''def ''
                     \<and> endsWith (trim (shown (originalLine nd))) '':''
                  then rx_match py_def (trim (shown (originalLine nd))) else None) of
              Some m \<Rightarrow>
                ''function '' @ captured m 1 @ ''(''
                @ join_with '', '' (split_parameters (captured m 2)) @ '') {''
            | None \<Rightarrow> shown (originalLine nd))
      else ''function '' @ shown (name nd) @ ''('' @ joined_parameters nd @ '') {\<newline>''
           @ body_lines nd @ ''}'')"
| "formatFunctionDefinition Python nd =
     (if truthy (originalLine nd)
      then (case (if startsWith (trim (shown (originalLine nd))) ''def ''
                     \<and> endsWith (trim (shown (originalLine nd))) '':''
                  then rx_match py_def (trim (shown (originalLine nd))) else None) of
              Some m \<Rightarrow>
                ''function '' @ captured m 1 @ ''('' @ captured m 2 @ '') {\<newline>''
                @ converted_body nd @ ''}''
            | None \<Rightarrow> shown (originalLine nd))
      else ''function '' @ shown (name nd) @ ''('' @ joined_parameters nd @ '') {}'')"
| "formatFunctionDefinition Java nd =
     (if truthy (originalLine nd) then shown (originalLine nd)
      else ''public '' @ or_else (returnType nd) ''void'' @ '' '' @ shown (name nd) @ ''(''
           @ joined_parameters nd @ '') {'')"
| "formatFunctionDefinition TypeScript nd =
     (if truthy (originalLine nd) then shown (originalLine nd)
      else ''function '' @ shown (name nd) @ ''('' @ joined_parameters nd @ ''): ''
           @ or_else (returnType nd) ''void'' @ '' {'')"
| "formatFunctionDefinition CSharp nd =
     (if truthy (originalLine nd) then shown (originalLine nd)
      else ''public '' @ or_else (returnType nd) ''void'' @ '' '' @ shown (name nd) @ ''(''
           @ joined_parameters nd @ '') {'')"
| "formatFunctionDefinition Cpp nd =
     (if truthy (originalLine nd) then shown (originalLine nd)
      else or_else (returnType nd) ''void'' @ '' '' @ shown (name nd) @ ''(''
           @ joined_parameters nd @ '') {'')"
| "formatFunctionDefinition Php nd =
     (if truthy (originalLine nd) then shown (originalLine nd)
      else ''function '' @ shown (name nd) @ ''('' @ joined_parameters nd @ '') {'')"
| "formatFunctionDefinition Go nd =
     (if truthy (originalLine nd) then shown (originalLine nd)
      else ''func '' @ shown (name nd) @ ''('' @ joined_parameters nd @ '')''
           @ clause '' '' (returnType nd) @ '' {'')"
| "formatFunctionDefinition Rust nd =
     (if truthy (originalLine nd) then shown (originalLine nd)
      else ''fn '' @ shown (name nd) @ ''('' @ joined_parameters nd @ '')''
           @ clause '' -> '' (returnType nd) @ '' {'')"
| "formatFunctionDefinition Kotlin nd =
     (if truthy (originalLine nd) then shown (originalLine nd)
      else ''fun '' @ shown (name nd) @ ''('' @ joined_parameters nd @ '')''
           @ clause '': '' (returnType nd) @ '' {'')"

subsection \<open>\<^verbatim>\<open>formatClassDefinition\<close>\<close>

text \<open>
  A node made by an object literal inherits \<^verbatim>\<open>constructor\<close> from \<^verbatim>\<open>Object.prototype\<close>:
  where the property is absent, \<^verbatim>\<open>node.constructor\<close> is the \<^verbatim>\<open>Object\<close> function, which
  is truthy and prints as its source text.
\<close>

definition constructor_clause :: "node \<Rightarrow> string" where
  "constructor_clause nd =
     (case ctor nd of
        None \<Rightarrow> ''(function Object() { [native code] })''
      | Some c \<Rightarrow> if c = [] then [] else ''('' @ c @ '')'')"

fun formatClassDefinition :: "language \<Rightarrow> node \<Rightarrow> string" where
  "formatClassDefinition JavaScript nd =
     (if truthy (originalLine nd) then shown (originalLine nd)
      else ''class '' @ shown (name nd) @ clause '' extends '' (extends nd) @ '' {'')"
| "formatClassDefinition Python nd = Base_format nd"
| "formatClassDefinition Java nd =
     (if truthy (originalLine nd) then shown (originalLine nd)
      else ''public class '' @ shown (name nd) @ clause '' extends '' (extends nd) @ '' {'')"
| "formatClassDefinition TypeScript nd =
     (if truthy (originalLine nd) then shown (originalLine nd)
      else if ntype nd = ''interface'' then ''interface '' @ shown (name nd) @ '' {''
      else ''class '' @ shown (name nd) @ clause '' extends '' (extends nd)
           @ clause '' implements '' (implements nd) @ '' {'')"
| "formatClassDefinition CSharp nd =
     (if truthy (originalLine nd) then shown (originalLine nd)
      else if ntype nd = ''namespace'' then ''namespace '' @ shown (name nd) @ '' {''
      else ''public class '' @ shown (name nd) @ clause '' : '' (inheritance nd) @ '' {'')"
| "formatClassDefinition Cpp nd =
     (if truthy (originalLine nd) then shown (originalLine nd)
      else if ntype nd = ''namespace'' then ''namespace '' @ shown (name nd) @ '' {''
      else ''class '' @ shown (name nd) @ clause '' : public '' (inheritance nd) @ '' {'')"
| "formatClassDefinition Php nd =
     (if truthy (originalLine nd) then shown (originalLine nd)
      else ''class '' @ shown (name nd) @ clause '' extends '' (extends nd)
           @ clause '' implements '' (implements nd) @ '' {'')"
| "formatClassDefinition Go nd =
     (if truthy (originalLine nd) then shown (originalLine nd)
      else if structType nd = Some ''struct'' then ''type '' @ shown (name nd) @ '' struct {''
      else if structType nd = Some ''interface''
      then ''type '' @ shown (name nd) @ '' interface {''
      else ''type '' @ shown (name nd) @ '' '' @ shown (definition_text nd))"
| "formatClassDefinition Rust nd =
     (if truthy (originalLine nd) then shown (originalLine nd)
      else if ntype nd = ''struct'' then ''struct '' @ shown (name nd) @ '' {''
      else if ntype nd = ''enum'' then ''enum '' @ shown (name nd) @ '' {''
      else if ntype nd = ''trait'' then ''trait '' @ shown (name nd) @ '' {''
      else if ntype nd = ''impl'' then ''impl '' @ shown (name nd) @ '' {''
      else [])"
| "formatClassDefinition Kotlin nd =
     (if truthy (originalLine nd) then shown (originalLine nd)
      else if ntype nd = ''class''
      then ''class '' @ shown (name nd) @ constructor_clause nd
           @ clause '' : '' (inheritance nd) @ '' {''
      else if ntype nd = ''interface''
      then ''interface '' @ shown (name nd) @ clause '' : '' (inheritance nd) @ '' {''
      else if ntype nd = ''object''
      then ''object '' @ shown (name nd) @ clause '' : '' (inheritance nd) @ '' {''
      else if ntype nd = ''dataClass''
      then ''data class '' @ shown (name nd) @ ''('' @ shown (properties nd) @ '')''
      else [])"

subsection \<open>\<^verbatim>\<open>formatVariableAssignment\<close>\<close>

fun formatVariableAssignment :: "language \<Rightarrow> node \<Rightarrow> string" where
  "formatVariableAssignment JavaScript nd =
     (if truthy (originalLine nd) then shown (originalLine nd)
      else or_else (declarationType nd) ''let'' @ '' '' @ shown (name nd) @ '' = ''
           @ shown (val nd) @ '';'')"
| "formatVariableAssignment Python nd = Base_format nd"
| "formatVariableAssignment Java nd =
     (if truthy (originalLine nd) then shown (originalLine nd)
      else or_else (dataType nd) ''Object'' @ '' '' @ shown (name nd)
           @ clause '' = '' (val nd) @ '';'')"
| "formatVariableAssignment TypeScript nd =
     (if truthy (originalLine nd) then shown (originalLine nd)
      else ''const '' @ shown (name nd) @ clause '': '' (dataType nd)
           @ clause '' = '' (val nd) @ '';'')"
| "formatVariableAssignment CSharp nd =
     (if truthy (originalLine nd) then shown (originalLine nd)
      else or_else (dataType nd) ''var'' @ '' '' @ shown (name nd)
           @ clause '' = '' (val nd) @ '';'')"
| "formatVariableAssignment Cpp nd =
     (if truthy (originalLine nd) then shown (originalLine nd)
      else or_else (dataType nd) ''auto'' @ '' '' @ shown (name nd)
           @ clause '' = '' (val nd) @ '';'')"
| "formatVariableAssignment Php nd =
     (if truthy (originalLine nd) then shown (originalLine nd)
      else shown (name nd) @ '' = '' @ shown (val nd) @ '';'')"
| "formatVariableAssignment Go nd =
     (if truthy (originalLine nd) then shown (originalLine nd)
      else if isConst nd then ''const '' @ shown (name nd) @ '' = '' @ shown (val nd)
      else ''var '' @ shown (name nd) @ clause '' '' (dataType nd) @ clause '' = '' (val nd))"
| "formatVariableAssignment Rust nd =
     (if truthy (originalLine nd) then shown (originalLine nd)
      else if isConst nd
      then ''const '' @ shown (name nd) @ '': '' @ shown (dataType nd) @ '' = ''
           @ shown (val nd) @ '';''
      else ''let '' @ shown (name nd) @ clause '': '' (dataType nd) @ '' = ''
           @ shown (val nd) @ '';'')"
| "formatVariableAssignment Kotlin nd =
     (if truthy (originalLine nd) then shown (originalLine nd)
      else (if isMutable nd then ''var'' else ''val'') @ '' '' @ shown (name nd)
           @ clause '': '' (dataType nd) @ clause '' = '' (val nd))"

subsection \<open>\<^verbatim>\<open>formatControlFlow\<close> and \<^verbatim>\<open>formatImportExport\<close>\<close>

fun formatControlFlow :: "language \<Rightarrow> node \<Rightarrow> string" where
  "formatControlFlow JavaScript nd =
     (if truthy (originalLine nd) then shown (originalLine nd)
      else if subtype nd = Some ''if'' then ''if ('' @ shown (condition nd) @ '') {''
      else if subtype nd = Some ''for'' then ''for ('' @ shown (condition nd) @ '') {''
      else if subtype nd = Some ''while'' then ''while ('' @ shown (condition nd) @ '') {''
      else [])"
| "formatControlFlow Python nd =
     (if truthy (originalLine nd)
      then (if startsWith (trim (shown (originalLine nd))) ''if ''
               \<and> endsWith (trim (shown (originalLine nd))) '':''
            then ''if (''
                 @ convertPythonCondition (trim (slice_to_last (trim (shown (originalLine nd))) 3))
                 @ '') {\<newline>'' @ converted_body nd @ ''}''
            else
              (case (if startsWith (trim (shown (originalLine nd))) ''for ''
                        \<and> endsWith (trim (shown (originalLine nd))) '':''
                     then rx_match py_for_range (trim (shown (originalLine nd))) else None) of
                 Some m \<Rightarrow>
                   ''for (let '' @ captured m 1 @ '' = 0; '' @ captured m 1 @ '' < ''
                   @ captured m 2 @ ''; '' @ captured m 1 @ ''++) {\<newline>''
                   @ converted_body nd @ ''}''
               | None \<Rightarrow> shown (originalLine nd)))
      else [])"
| "formatControlFlow l nd = Base_format nd"

definition formatImportExport :: "language \<Rightarrow> node \<Rightarrow> string" where
  "formatImportExport l nd = Base_format nd"

section \<open>The generation stage\<close>







section \<open>Text that is laid out as the re-indentation pass reads it\<close>










text \<open>
  A line with its braces in place: the trimmed line is \<^verbatim>\<open>}\<close>, or the line has no closing
  brace and either no opening brace or exactly one, which ends the trimmed line. In a
  text with its braces in place every line is such a line and the last line, the one
  without a line feed after it, has no brace.
\<close>

definition brace_placed :: "string \<Rightarrow> bool" where
  "brace_placed l =
     (trim l = ''}''
      \<or> (CHR ''}'' \<notin> set l
          \<and> (CHR ''{'' \<notin> set l \<or> (endsWith (trim l) ''{'' \<and> count_list l CHR ''{'' = 1))))"

definition braces_placed :: "string \<Rightarrow> bool" where
  "braces_placed s =
     (list_all brace_placed (split_lines s)
      \<and> CHR ''{'' \<notin> set (last (split_lines s)) \<and> CHR ''}'' \<notin> set (last (split_lines s)))"


definition opens_by_brace_only :: "string \<Rightarrow> bool" where
  "opens_by_brace_only l =
     (endsWith (trim l) ''{''
      \<or> \<not> (rx_test control_header (trim l) \<or> str_includes (trim l) ''class ''
             \<or> str_includes (trim l) ''interface '' \<or> str_includes (trim l) ''enum ''
             \<or> rx_test modifier_block (trim l)))"


section \<open>Fixed points of \<^verbatim>\<open>JavaScriptConverter.formatCode\<close>\<close>

text \<open>
  Predicates that describe the texts \<^verbatim>\<open>JavaScriptConverter.formatCode\<close> leaves as they are:
  \<open>all_ws\<close> holds of a string of white space only, \<open>right_trimmed\<close> of a line that
  \<^verbatim>\<open>trimRight\<close> does not change, \<open>lf_ok n\<close> of a text that, read after \<open>n\<close> line feeds,
  has no run of three line feeds, and \<open>good_line\<close> of a right-trimmed line that is not a
  \<^verbatim>\<open>//\<close> comment.
\<close>

definition all_ws :: "string \<Rightarrow> bool" where
  "all_ws w = (\<forall>c \<in> set w. is_ws c)"

definition right_trimmed :: "string \<Rightarrow> bool" where
  "right_trimmed l = (l = [] \<or> \<not> is_ws (last l))"

fun lf_ok :: "nat \<Rightarrow> string \<Rightarrow> bool" where
  "lf_ok n [] = (n < 3)"
| "lf_ok n (c # cs) = (if c = LF then Suc n < 3 \<and> lf_ok (Suc n) cs else n < 3 \<and> lf_ok 0 cs)"

definition good_line :: "string \<Rightarrow> bool" where
  "good_line l = (right_trimmed l \<and> \<not> startsWith (trim l) ''//'')"

section \<open>Preconditions of the conversion entry point\<close>

lemma convertCode_blank_source:
  assumes "trim sourceCode = []"
  shows "convertCode P sourceCode fromLang toLang =
           ([], Inl ''Please provide source code to convert'')"
  using assms by (simp add: convertCode_def)

lemma convertCode_same_language:
  assumes "trim sourceCode \<noteq> []"
  shows "convertCode P sourceCode l l =
           ([], Inl ''Source and target languages must be different'')"
  using assms by (simp add: convertCode_def)

lemma convertCode_undefined_slot:
  assumes "trim sourceCode \<noteq> []" and "fromLang \<noteq> toLang"
    and "CONVERTERS fromLang = Undefined \<or> CONVERTERS toLang = Undefined"
  shows "convertCode P sourceCode fromLang toLang =
           ([], Inl (''Conversion between '' @ fromLang @ '' and '' @ toLang @ '' is not supported''))"
  using assms by (auto simp add: convertCode_def)

lemma CONVERTERS_class_supported:
  assumes "CONVERTERS tag = ConverterClass l"
  shows "tag \<in> set supported_identifiers"
proof -
  from assms obtain l' where "map_of own_converters tag = Some l'"
    by (auto simp add: CONVERTERS_def split: option.splits if_splits)
  then have "(tag, l') \<in> set own_converters"
    by (rule map_of_SomeD)
  then have "tag \<in> fst ` set own_converters"
    by force
  then show ?thesis
    by (simp add: own_converters_def supported_identifiers_def SUPPORTED_LANGUAGES_def)
qed

text \<open>
  An unsupported tag never yields an output object: the call ends in an error whatever
  the stages do.
\<close>

lemma convertCode_unsupported_no_output:
  assumes "fromLang \<notin> set supported_identifiers \<or> toLang \<notin> set supported_identifiers"
  shows "isl (snd (convertCode P sourceCode fromLang toLang))"
proof -
  have "\<not> (\<exists>l. CONVERTERS fromLang = ConverterClass l) \<or> \<not> (\<exists>l. CONVERTERS toLang = ConverterClass l)"
    using assms CONVERTERS_class_supported by blast
  then show ?thesis
    by (auto simp add: convertCode_def run_pipeline_def
        split: slot.splits sum.splits prod.splits)
qed

text \<open>
  C1 (the call at which the code leaves the claim). \<^verbatim>\<open>convertCode("x = 1", "python",
  "constructor")\<close>: the tag \<^verbatim>\<open>constructor\<close> is not one of the ten identifiers, but
  \<^verbatim>\<open>CONVERTERS["constructor"]\<close> is the inherited \<^verbatim>\<open>Object\<close> function, which is truthy,
  so the not-supported check lets the call through. Whatever the stages do, the source
  side's \<^verbatim>\<open>parseToAST\<close> has run before the call fails, and it fails with the wrapped
  error of the \<^verbatim>\<open>catch\<close> block, not with the not-supported error.
\<close>

theorem convertCode_constructor_tag_runs_parse:
  "''constructor'' \<notin> set supported_identifiers
   \<and> fst (convertCode P ''x = 1'' ''python'' ''constructor'') = [ParseToAST Python]
   \<and> isl (snd (convertCode P ''x = 1'' ''python'' ''constructor''))
   \<and> snd (convertCode P ''x = 1'' ''python'' ''constructor'')
       \<noteq> Inl ''Conversion between python and constructor is not supported''"
  by (simp add: convertCode_def run_pipeline_def CONVERTERS_def own_converters_def
      supported_identifiers_def SUPPORTED_LANGUAGES_def trim_def trimStart_def trimEnd_def
      is_ws_def split: sum.splits prod.splits)

section \<open>Inline comments and string literals\<close>

lemmas string_simps =
  trim_def trimStart_def trimEnd_def is_ws_def startsWith_def endsWith_def LF_def CR_def
  is_line_terminator_def split_lines_def split_on_def join_lines_def

text \<open>
  C5 (the line at which the code leaves the claim). In the JavaScript line
  \<^verbatim>\<open>a = "http://x"; // c\<close> the first \<^verbatim>\<open>//\<close> stands inside the string literal
  \<^verbatim>\<open>"http://x"\<close>, as the split of \<^verbatim>\<open>hasInlineComment\<close> itself shows, and the second
  starts the comment. \<^verbatim>\<open>hasInlineComment\<close> is true because of the second;
  \<^verbatim>\<open>splitInlineComment\<close> then cuts at \<^verbatim>\<open>line.indexOf('//')\<close>, the first, so the code part
  is the truncated \<^verbatim>\<open>a = "http:\<close>.
\<close>

theorem JavaScript_split_inside_string_literal:
  \<open>split_literals [] ''a = "http://x"; // c''
     = [''a = '', [CHR 0x22], ''http://x'', [CHR 0x22], ''; // c'']
   \<and> JavaScript_hasInlineComment ''a = "http://x"; // c''
   \<and> JavaScript_splitInlineComment ''a = "http://x"; // c''
     = (''a = "http:'', ''//x"; // c'')\<close>
  by (simp add: JavaScript_hasInlineComment_def JavaScript_splitInlineComment_def string_simps)

text \<open>
  The Python methods do not look at string literals at all: any \<^verbatim>\<open>#\<close> counts, and the
  line is cut at the first one.
\<close>

lemma Python_split_inside_string_literal:
  \<open>Python_hasInlineComment ''x = "a#b"''
   \<and> Python_splitInlineComment ''x = "a#b"'' = (''x = "a'', ''#b"'')\<close>
  by (simp add: Python_hasInlineComment_def Python_splitInlineComment_def string_simps)

text \<open>
  A marker that stands only inside a terminated literal is not reported by the JavaScript
  method.
\<close>

lemma JavaScript_marker_only_in_literal:
  \<open>\<not> JavaScript_hasInlineComment ''a = "x//y";''\<close>
  by (simp add: JavaScript_hasInlineComment_def string_simps)

section \<open>Blank lines and the trailing newline\<close>

text \<open>
  C7 (the input at which the code leaves the claim). The \<^verbatim>\<open>formatCode\<close> that runs for
  the JavaScript target ends in \<^verbatim>\<open>.trim()\<close>: for the input \<^verbatim>\<open>x\<close> it returns \<^verbatim>\<open>x\<close>, with
  no trailing newline.
\<close>

theorem JavaScript_formatCode_no_trailing_newline:
  "JavaScript_formatCode ''x'' = ''x'' \<and> \<not> endsWith (JavaScript_formatCode ''x'') [LF]"
  by (simp add: JavaScript_formatCode_def keeps_line_def string_simps)

section \<open>The large-file guard of syntax validation\<close>

lemma split_lines_replicate_LF: "split_lines (replicate n LF) = replicate (Suc n) []"
  by (induction n) (simp_all add: split_lines_def split_on_def)

lemma Base_validateSyntax_large:
  assumes "5000 < length (split_lines src)"
  shows "Base_validateSyntax lang src =
           [\<lparr>message = ''Large file detected - some validations skipped for performance'',
             wline = None, wlanguage = lang\<rparr>]"
  using assms by (simp add: Base_validateSyntax_def addWarning_def)

text \<open>
  For a large input the Java method still runs its own pass after the base method has
  returned: its result is the base's notice followed by the method's own warnings.
\<close>

lemma Java_validateSyntax_large:
  assumes "5000 < length (split_lines src)"
  shows "\<exists>ws. Java_validateSyntax src =
           \<lparr>message = ''Large file detected - some validations skipped for performance'',
            wline = None, wlanguage = ''Java''\<rparr> # ws
         \<and> (list_ex (\<lambda>ln. str_includes ln ''class '') (map trim (split_lines src)) \<or>
            \<lparr>message = ''Java code should contain at least one class'', wline = None,
             wlanguage = ''Java''\<rparr> \<in> set ws)"
  using assms
  by (auto simp add: Java_validateSyntax_def Base_validateSyntax_large addWarning_def Let_def)

text \<open>
  C8 (the input at which the code leaves the claim). An input of 5000 line feeds has 5001
  lines. \<^verbatim>\<open>JavaConverter.validateSyntax\<close> emits the large-file notice and, from the pass
  that the guard was to skip, a second warning.
\<close>

theorem Java_validateSyntax_large_two_warnings:
  "length (split_lines (replicate 5000 LF)) = 5001
   \<and> Java_validateSyntax (replicate 5000 LF) =
       [\<lparr>message = ''Large file detected - some validations skipped for performance'',
         wline = None, wlanguage = ''Java''\<rparr>,
        \<lparr>message = ''Java code should contain at least one class'',
         wline = None, wlanguage = ''Java''\<rparr>]"
proof -
  define src where "src = replicate 5000 LF"
  have lines: "split_lines src = replicate 5001 []"
    using split_lines_replicate_LF [of 5000] by (simp add: src_def)
  have trimmed: "map trim (split_lines src) = replicate 5001 []"
    by (simp add: lines trim_def trimStart_def trimEnd_def)
  have large: "5000 < length (split_lines src)" and count: "length (split_lines src) = 5001"
    by (simp_all add: lines)
  have no_class: "\<not> list_ex (\<lambda>ln. str_includes ln ''class '') (map trim (split_lines src))"
    unfolding trimmed by (simp add: list_ex_iff)
  have braces:
    "(\<Sum>ln\<leftarrow>map trim (split_lines src). int (count_chars ''{'' ln) - int (count_chars ''}'' ln)) = 0"
    unfolding trimmed by (simp add: count_chars_def sum_list_replicate)
  have "Java_validateSyntax src =
       [\<lparr>message = ''Large file detected - some validations skipped for performance'',
         wline = None, wlanguage = ''Java''\<rparr>,
        \<lparr>message = ''Java code should contain at least one class'',
         wline = None, wlanguage = ''Java''\<rparr>]"
    unfolding Java_validateSyntax_def Let_def
    by (simp only: no_class braces Base_validateSyntax_large [OF large] addWarning_def
        if_False if_True simp_thms append.simps)
  with count show ?thesis
    by (simp add: src_def)
qed

section \<open>Indentation levels of the re-indentation pass\<close>



text \<open>
  The same happens in the Kotlin pass when a closing brace does not start its line: the
  braces of the text are balanced, the pass reads an opening line and no closing line.
\<close>

lemma Kotlin_balanced_braces_level_not_zero:
  "balanced_braces ''{\<newline>x }\<newline>''
   \<and> Kotlin_format_loop ''{\<newline>x }\<newline>'' = ([''{'', ''    x }'', []], [0, 1], 1)"
  by code_simp

section \<open>Line classification\<close>

text \<open>
  C3. For every converter and every line, \<^verbatim>\<open>parseLineToNode\<close> hands the trimmed line to the
  parser of the first category, in the order function, class, variable assignment,
  control flow, import/export, whose predicate holds of the trimmed line; when none holds
  the result is the generic Expression node with the trimmed line as its text. The
  method has no failing branch: it is a total function of the line.
\<close>

theorem parseLineToNode_priority_order:
  "parseLineToNode h ln n ctx =
     parse_as h (classify h (trim ln)) (trim ln) n (length ln - length (trimStart ln)) ctx
   \<and> (classify h (trim ln) = ExpressionCat \<longleftrightarrow>
        \<not> (isFunctionDefinition h (trim ln) \<or> isClassDefinition h (trim ln)
           \<or> isVariableAssignment h (trim ln) \<or> isControlFlow h (trim ln)
           \<or> isImportExport h (trim ln)))
   \<and> (classify h (trim ln) = ExpressionCat \<longrightarrow>
        parseLineToNode h ln n ctx =
          object_literal\<lparr>ntype := ''Expression'', originalLine := Some (trim ln),
            lineNumber := n, indent := Some (length ln - length (trimStart ln)),
            enclosing := ctx\<rparr>)"
  by (simp add: parseLineToNode_def classify_def priority_order_def parseExpression_def
      base_parse_def Let_def)

text \<open>
  In the JavaScript converter the line \<^verbatim>\<open>const f = (a) => a\<close> satisfies the function and
  the variable predicate, and is a function definition; \<^verbatim>\<open>return a + b;\<close>, indented by
  two spaces, satisfies no predicate.
\<close>

theorem parseLineToNode_priority_order_witness:
  "JavaScript_isFunctionDefinition ''const f = (a) => a''
   \<and> JavaScript_isVariableAssignment ''const f = (a) => a''
   \<and> ntype (parseLineToNode JavaScript_converter ''const f = (a) => a'' 1 None)
       = ''FunctionDefinition''
   \<and> classify JavaScript_converter (trim ''  return a + b;'') = ExpressionCat
   \<and> parseLineToNode JavaScript_converter ''  return a + b;'' 4 None =
       object_literal\<lparr>ntype := ''Expression'', originalLine := Some ''return a + b;'',
         lineNumber := 4, indent := Some 2, enclosing := None\<rparr>"
proof -
  have f: "JavaScript_isFunctionDefinition ''const f = (a) => a''"
    and v: "JavaScript_isVariableAssignment ''const f = (a) => a''"
    and t: "ntype (parseLineToNode JavaScript_converter ''const f = (a) => a'' 1 None)
              = ''FunctionDefinition''"
    and c: "classify JavaScript_converter (trim ''  return a + b;'') = ExpressionCat"
    by code_simp+
  have tr: "trim ''  return a + b;'' = ''return a + b;''"
    and ind: "length ''  return a + b;'' - length (trimStart ''  return a + b;'') = 2"
    by code_simp+
  from parseLineToNode_priority_order [of JavaScript_converter "''  return a + b;''" 4 None] c
  have "parseLineToNode JavaScript_converter ''  return a + b;'' 4 None =
          object_literal\<lparr>ntype := ''Expression'', originalLine := Some (trim ''  return a + b;''),
            lineNumber := 4,
            indent := Some (length ''  return a + b;'' - length (trimStart ''  return a + b;'')),
            enclosing := None\<rparr>"
    by blast
  with f v t c show ?thesis
    by (simp only: tr ind simp_thms)
qed

section \<open>One node per line\<close>

lemma split_from_no_sep:
  "l \<in> set (split_from d piece s) \<Longrightarrow> d \<notin> set piece \<Longrightarrow> d \<notin> set l"
  by (induction d piece s rule: split_from.induct) (auto split: if_splits)

lemma split_lines_no_LF: "l \<in> set (split_lines s) \<Longrightarrow> LF \<notin> set l"
  using split_from_no_sep [of l LF "[]" s] by (simp add: split_lines_def split_on_def)

lemma split_from_not_Nil: "split_from d piece s \<noteq> []"
  by (induction d piece s rule: split_from.induct) auto

lemma split_lines_not_Nil: "split_lines s \<noteq> []"
  by (simp add: split_lines_def split_on_def split_from_not_Nil)

lemma split_from_line:
  "d \<notin> set l \<Longrightarrow> split_from d piece (l @ s) = split_from d (rev l @ piece) s"
  by (induction l arbitrary: piece) auto

lemma split_from_join:
  "ls \<noteq> [] \<Longrightarrow> \<forall>l \<in> set ls. d \<notin> set l \<Longrightarrow>
   split_from d piece (join_with [d] ls) = (rev piece @ hd ls) # tl ls"
proof (induction "[d]" ls arbitrary: piece rule: join_with.induct)
  case 1
  then show ?case by simp
next
  case (2 l)
  then show ?case
    using split_from_line [of d l piece "[]"] by simp
next
  case (3 l m ls)
  have "split_from d piece (l @ d # join_with [d] (m # ls))
          = split_from d (rev l @ piece) (d # join_with [d] (m # ls))"
    using 3 split_from_line [of d l piece] by simp
  also have "\<dots> = (rev piece @ l) # split_from d [] (join_with [d] (m # ls))"
    by simp
  also have "split_from d [] (join_with [d] (m # ls)) = m # ls"
    using 3 by simp
  finally show ?case by simp
qed

lemma split_lines_join_lines:
  "ls \<noteq> [] \<Longrightarrow> \<forall>l \<in> set ls. LF \<notin> set l \<Longrightarrow> split_lines (join_lines ls) = ls"
  using split_from_join [of ls LF "[]"]
  by (simp add: split_lines_def split_on_def join_lines_def)

















lemma base_parse_keeps_line_number:
  "t \<noteq> ''Comment'' \<Longrightarrow> keeps_line_number (base_parse t)"
  by (simp add: keeps_line_number_def base_parse_def)


lemma Java_converter_tidy: "tidy_converter Java_converter"
  by (simp add: tidy_converter_def Java_converter_def Base_splitInlineComment_def
      Base_parseFunctionDefinition_def Base_parseClassDefinition_def
      Base_parseVariableAssignment_def Base_parseControlFlow_def base_parse_keeps_line_number)


section \<open>The Python source side\<close>





text \<open>
  Two more translations: a call of \<^verbatim>\<open>print\<close> becomes a call of \<^verbatim>\<open>console.log\<close>, and
  an \<^verbatim>\<open>if\<close> block gets its parentheses and braces.
\<close>

lemma convertPythonToJS_examples:
  "convertPythonToJS ''print(x)'' = ''console.log(x);\<newline>''
   \<and> convertPythonToJS ''if x > 1:\<newline>    print(x)''
       = ''if (x > 1) {\<newline>console.log(x);\<newline>}\<newline>''"
  by code_simp

section \<open>Pass-through of the original text\<close>

text \<open>
  C2, as amended. For a node whose \<^verbatim>\<open>originalLine\<close> is populated, in every converter
  \<^verbatim>\<open>formatClassDefinition\<close>, \<^verbatim>\<open>formatVariableAssignment\<close> and \<^verbatim>\<open>formatImportExport\<close> return
  that text unchanged; so does \<^verbatim>\<open>formatControlFlow\<close> in every converter but Python, and
  \<^verbatim>\<open>formatFunctionDefinition\<close> in every converter but Python and JavaScript, where
  JavaScript returns it unchanged unless the trimmed text is a Python \<^verbatim>\<open>def\<close> header.
  \<^verbatim>\<open>formatExpression\<close> returns the text unchanged in TypeScript only: the other converters
  but Python return the trimmed text, and JavaScript, Java, C#, C++, PHP and Rust append
  a semicolon to it where their rule asks for one.
\<close>

theorem formatters_pass_through:
  assumes "originalLine nd = Some s" and "s \<noteq> []"
  shows "formatClassDefinition l nd = s
         \<and> formatVariableAssignment l nd = s
         \<and> formatImportExport l nd = s
         \<and> (l \<noteq> Python \<longrightarrow> formatControlFlow l nd = s)
         \<and> (l \<noteq> Python \<and> l \<noteq> JavaScript \<longrightarrow> formatFunctionDefinition l nd = s)
         \<and> (\<not> (startsWith (trim s) ''def '' \<and> endsWith (trim s) '':'')
              \<longrightarrow> formatFunctionDefinition JavaScript nd = s)
         \<and> formatExpression TypeScript nd = s
         \<and> (l \<noteq> TypeScript \<and> l \<noteq> Python
              \<longrightarrow> formatExpression l nd
                    = (if needs_semicolon l (trim s) then trim s @ '';'' else trim s))"
  using assms
  by (cases l)
     (simp_all add: truthy_def shown_def or_else_def Base_format_def formatImportExport_def
        terminated_def)

theorem formatters_pass_through_witness:
  "formatVariableAssignment Java (object_literal\<lparr>originalLine := Some ''  int x = 1''\<rparr>)
     = ''  int x = 1''
   \<and> formatFunctionDefinition Kotlin (object_literal\<lparr>originalLine := Some ''  int x = 1''\<rparr>)
       = ''  int x = 1''
   \<and> formatExpression Kotlin (object_literal\<lparr>originalLine := Some ''  int x = 1''\<rparr>)
       = ''int x = 1''
   \<and> formatExpression Java (object_literal\<lparr>originalLine := Some ''  int x = 1''\<rparr>)
       = ''int x = 1;''"
proof -
  define nd where "nd = object_literal\<lparr>originalLine := Some ''  int x = 1''\<rparr>"
  have o: "originalLine nd = Some ''  int x = 1''" and ne: "''  int x = 1'' \<noteq> []"
    by (simp_all add: nd_def)
  have t: "trim ''  int x = 1'' = ''int x = 1''"
    by code_simp
  have j: "needs_semicolon Java ''int x = 1''" and k: "\<not> needs_semicolon Kotlin ''int x = 1''"
    by code_simp+
  from formatters_pass_through [OF o ne, of Java] j
  have "formatVariableAssignment Java nd = ''  int x = 1''"
    and "formatExpression Java nd = ''int x = 1;''"
    by (simp_all add: t)
  moreover from formatters_pass_through [OF o ne, of Kotlin] k
  have "formatFunctionDefinition Kotlin nd = ''  int x = 1''"
    and "formatExpression Kotlin nd = ''int x = 1''"
    by (simp_all add: t)
  ultimately show ?thesis
    by (simp add: nd_def)
qed

text \<open>
  C2, as stated, fails: for the Expression node with the text \<^verbatim>\<open>foo()\<close> the JavaScript
  \<^verbatim>\<open>formatExpression\<close> returns \<^verbatim>\<open>foo();\<close>, with a character added, and so does Java's.
\<close>

theorem formatExpression_appends_semicolon:
  "formatExpression JavaScript
     (object_literal\<lparr>ntype := ''Expression'', originalLine := Some ''foo()''\<rparr>) = ''foo();''
   \<and> formatExpression Java
       (object_literal\<lparr>ntype := ''Expression'', originalLine := Some ''foo()''\<rparr>) = ''foo();''"
  by code_simp

text \<open>
  The JavaScript \<^verbatim>\<open>formatFunctionDefinition\<close> rewrites a populated text that is a Python
  function header.
\<close>

lemma JavaScript_formatFunctionDefinition_rewrites_def:
  "formatFunctionDefinition JavaScript
     (object_literal\<lparr>ntype := ''FunctionDefinition'', originalLine := Some ''def f(a,b):''\<rparr>)
     = ''function f(a, b) {''"
  by code_simp

section \<open>Applying \<^verbatim>\<open>formatCode\<close> twice\<close>

text \<open>
  \<^verbatim>\<open>convertCode\<close> applies the target converter's \<^verbatim>\<open>formatCode\<close> to text that
  \<^verbatim>\<open>generateFromAST\<close> has already passed through \<^verbatim>\<open>formatCode\<close>. The lemmas below
  relate the lines of a text to the lines of its parts, and follow the lines through
  \<^verbatim>\<open>trim\<close> and through the collapse of line-feed runs.
\<close>

lemma split_from_piece:
  "split_from d piece s = (rev piece @ hd (split_from d [] s)) # tl (split_from d [] s)"
proof (induction s arbitrary: piece)
  case Nil
  then show ?case by simp
next
  case (Cons c cs)
  show ?case
  proof (cases "c = d")
    case True
    then show ?thesis by simp
  next
    case False
    then show ?thesis
      using Cons [of "c # piece"] Cons [of "[c]"] by simp
  qed
qed

lemma split_lines_Nil [simp]: "split_lines [] = [[]]"
  by (simp add: split_lines_def split_on_def)

lemma split_lines_LF [simp]: "split_lines (LF # s) = [] # split_lines s"
  by (simp add: split_lines_def split_on_def)

lemma split_lines_Cons [simp]:
  "c \<noteq> LF \<Longrightarrow> split_lines (c # s) = (c # hd (split_lines s)) # tl (split_lines s)"
  using split_from_piece [of LF "[c]" s] by (simp add: split_lines_def split_on_def)

declare split_lines_not_Nil [simp]

lemma split_lines_append:
  "split_lines (a @ b) =
     butlast (split_lines a) @ (last (split_lines a) @ hd (split_lines b)) # tl (split_lines b)"
proof (induction a)
  case Nil
  then show ?case by simp
next
  case (Cons c a)
  show ?case
  proof (cases "c = LF")
    case True
    then show ?thesis using Cons by simp
  next
    case False
    show ?thesis
    proof (cases "butlast (split_lines a)")
      case Nil
      then have "split_lines a = [last (split_lines a)]"
        by (metis append_butlast_last_id append_Nil split_lines_not_Nil)
      then have "hd (split_lines a) = last (split_lines a)" "tl (split_lines a) = []"
        by (metis list.sel(1), metis list.sel(3))
      with False Cons Nil show ?thesis by simp
    next
      case (Cons x xs)
      then have "split_lines a = x # xs @ [last (split_lines a)]"
        by (metis append_butlast_last_id append_Cons split_lines_not_Nil)
      then have "hd (split_lines a) = x" "tl (split_lines a) = xs @ [last (split_lines a)]"
        by (metis list.sel(1), metis list.sel(3))
      with False Cons.IH Cons show ?thesis by simp
    qed
  qed
qed

lemma join_lines_split_lines: "join_lines (split_lines s) = s"
proof (induction s)
  case Nil
  then show ?case by (simp add: join_lines_def)
next
  case (Cons c s)
  obtain l ls where ls: "split_lines s = l # ls"
    by (cases "split_lines s") simp_all
  show ?case
  proof (cases "c = LF")
    case True
    with Cons ls show ?thesis by (simp add: join_lines_def)
  next
    case False
    with Cons ls show ?thesis by (cases ls) (simp_all add: join_lines_def)
  qed
qed

lemma is_ws_LF [simp]: "is_ws LF"
  by (simp add: is_ws_def LF_def)

lemma trimStart_split: "\<exists>w. s = w @ trimStart s \<and> all_ws w"
proof -
  have "s = takeWhile is_ws s @ dropWhile is_ws s" by simp
  moreover have "all_ws (takeWhile is_ws s)"
    by (auto simp add: all_ws_def dest: set_takeWhileD)
  ultimately show ?thesis unfolding trimStart_def by blast
qed

lemma trimEnd_split: "\<exists>w. s = trimEnd s @ w \<and> all_ws w"
proof -
  from trimStart_split [of "rev s"] obtain w where "rev s = w @ trimStart (rev s)" "all_ws w"
    by blast
  then have "s = rev (trimStart (rev s)) @ rev w" "all_ws (rev w)"
    by (metis rev_append rev_rev_ident, simp add: all_ws_def)
  then show ?thesis
    unfolding trimEnd_def trimStart_def by blast
qed

lemma right_trimmed_trimEnd: "right_trimmed (trimEnd s)"
proof (cases "dropWhile is_ws (rev s)")
  case Nil
  then show ?thesis by (simp add: right_trimmed_def trimEnd_def)
next
  case (Cons c cs)
  then have "\<not> is_ws c"
    using hd_dropWhile [of is_ws "rev s"] by simp
  with Cons show ?thesis
    by (simp add: right_trimmed_def trimEnd_def)
qed

lemma trimEnd_right_trimmed: "right_trimmed l \<Longrightarrow> trimEnd l = l"
  by (cases l rule: rev_cases) (simp_all add: right_trimmed_def trimEnd_def)

lemma trimStart_not_ws: "trimStart s = [] \<or> \<not> is_ws (hd (trimStart s))"
  using hd_dropWhile [of is_ws s] by (auto simp add: trimStart_def)

lemma trimStart_left_trimmed: "s = [] \<or> \<not> is_ws (hd s) \<Longrightarrow> trimStart s = s"
  by (cases s) (simp_all add: trimStart_def)

lemma trimStart_ws_prefix: "all_ws u \<Longrightarrow> trimStart (u @ l) = trimStart l"
  by (simp add: trimStart_def all_ws_def dropWhile_append)

lemma trimEnd_ws_suffix: "all_ws u \<Longrightarrow> trimEnd (l @ u) = trimEnd l"
  by (simp add: trimEnd_def all_ws_def dropWhile_append)

lemma trimStart_right_trimmed: "right_trimmed l \<Longrightarrow> right_trimmed (trimStart l)"
proof -
  assume r: "right_trimmed l"
  show ?thesis
  proof (cases "trimStart l = []")
    case True
    then show ?thesis by (simp add: right_trimmed_def)
  next
    case False
    from trimStart_split [of l] obtain w where "l = w @ trimStart l" by blast
    with False have "last l = last (trimStart l)" "l \<noteq> []"
      by (metis last_appendR, metis append_is_Nil_conv)
    with r show ?thesis by (simp add: right_trimmed_def)
  qed
qed

lemma trim_right_trimmed: "right_trimmed l \<Longrightarrow> trim l = trimStart l"
  by (simp add: trim_def trimEnd_right_trimmed trimStart_right_trimmed)

lemma trim_trimEnd: "trim (trimEnd l) = trim l"
proof -
  from trimEnd_split [of l] obtain w where w: "l = trimEnd l @ w" "all_ws w" by blast
  show ?thesis
  proof (cases "trimStart (trimEnd l) = []")
    case True
    then have "all_ws (trimEnd l)"
      by (simp add: trimStart_def all_ws_def dropWhile_eq_Nil_conv)
    then have "all_ws l"
      using w by (metis all_ws_def set_append UnE)
    then have "trimStart l = []"
      by (simp add: trimStart_def all_ws_def dropWhile_eq_Nil_conv)
    with True show ?thesis by (simp add: trim_def trimEnd_def)
  next
    case False
    then have "\<not> all_ws (trimEnd l)"
      by (simp add: trimStart_def all_ws_def dropWhile_eq_Nil_conv)
    then have "trimStart l = trimStart (trimEnd l) @ w"
      using w(1) by (metis trimStart_def all_ws_def dropWhile_append1 bex_simps(8) dropWhile_append)
    then have "trimEnd (trimStart l) = trimEnd (trimStart (trimEnd l))"
      using w(2) by (simp add: trimEnd_ws_suffix)
    then show ?thesis
      by (simp add: trim_def)
  qed
qed

lemma trim_idem: "trim (trim s) = trim s"
proof -
  have r: "right_trimmed (trim s)"
    by (simp add: trim_def right_trimmed_trimEnd)
  have "trimStart (trim s) = trim s"
  proof (cases "trim s = []")
    case True
    then show ?thesis by (simp add: trimStart_def)
  next
    case False
    from trimEnd_split [of "trimStart s"] obtain w where "trimStart s = trim s @ w"
      by (auto simp add: trim_def)
    with False have "hd (trim s) = hd (trimStart s)" "trimStart s \<noteq> []"
      by (metis hd_append2, metis append_is_Nil_conv)
    with trimStart_not_ws [of s] have "\<not> is_ws (hd (trim s))" by simp
    then show ?thesis by (simp add: trimStart_left_trimmed)
  qed
  with r show ?thesis
    by (simp add: trim_right_trimmed)
qed

lemma lf_ok_bound: "lf_ok n x \<Longrightarrow> n < 3"
  by (cases x) (simp_all split: if_splits)

lemma lf_ok_mono: "lf_ok n x \<Longrightarrow> m \<le> n \<Longrightarrow> lf_ok m x"
proof (induction x arbitrary: n m)
  case Nil
  then show ?case by simp
next
  case (Cons c cs)
  show ?case
  proof (cases "c = LF")
    case True
    with Cons.prems have "lf_ok (Suc n) cs" "Suc n < 3" by simp_all
    with Cons.IH [of "Suc n" "Suc m"] Cons.prems(2) True show ?thesis by simp
  next
    case False
    with Cons.prems show ?thesis by simp
  qed
qed

lemma lf_ok_replicate: "lf_ok k (replicate m LF @ y) = (k + m < 3 \<and> lf_ok (k + m) y)"
proof (induction m arbitrary: k)
  case 0
  show ?case using lf_ok_bound [of k y] by simp blast
next
  case (Suc m)
  have "lf_ok k (replicate (Suc m) LF @ y) = (Suc k < 3 \<and> lf_ok (Suc k) (replicate m LF @ y))"
    by simp
  also have "\<dots> = (Suc k < 3 \<and> Suc k + m < 3 \<and> lf_ok (Suc k + m) y)"
    by (simp only: Suc.IH)
  also have "\<dots> = (k + Suc m < 3 \<and> lf_ok (k + Suc m) y)"
    by (simp only: add_Suc add_Suc_right) linarith
  finally show ?case .
qed

lemma collapse_newlines_lf_ok: "lf_ok n x \<Longrightarrow> collapse_newlines n x = replicate n LF @ x"
proof (induction x arbitrary: n)
  case Nil
  then show ?case by simp
next
  case (Cons c cs)
  show ?case
  proof (cases "c = LF")
    case True
    with Cons.prems have "lf_ok (Suc n) cs" by simp
    from Cons.IH [OF this] True show ?thesis
      by (simp add: replicate_app_Cons_same)
  next
    case False
    with Cons.prems have "lf_ok 0 cs" "n < 3" by simp_all
    with Cons.IH [of 0] False show ?thesis by simp
  qed
qed

lemma lf_ok_collapse_newlines: "lf_ok 0 (collapse_newlines n x)"
proof (induction x arbitrary: n)
  case Nil
  show ?case using lf_ok_replicate [of 0 _ "[]"] by simp
next
  case (Cons c cs)
  show ?case
  proof (cases "c = LF")
    case True
    then show ?thesis using Cons.IH by simp
  next
    case False
    then show ?thesis using Cons.IH [of 0] by (simp add: lf_ok_replicate)
  qed
qed

lemma lf_ok_suffix: "lf_ok n (a @ b) \<Longrightarrow> lf_ok 0 b"
proof (induction a arbitrary: n)
  case Nil
  then show ?case by (simp add: lf_ok_mono)
next
  case (Cons c a)
  show ?case
  proof (cases "c = LF")
    case True
    with Cons.prems have "lf_ok (Suc n) (a @ b)" by simp
    then show ?thesis by (rule Cons.IH)
  next
    case False
    with Cons.prems have "lf_ok 0 (a @ b)" by simp
    then show ?thesis by (rule Cons.IH)
  qed
qed

lemma lf_ok_prefix: "lf_ok n (a @ b) \<Longrightarrow> lf_ok n a"
proof (induction a arbitrary: n)
  case Nil
  then show ?case by (simp add: lf_ok_bound)
next
  case (Cons c a)
  show ?case
  proof (cases "c = LF")
    case True
    with Cons.prems have "lf_ok (Suc n) (a @ b)" "Suc n < 3" by simp_all
    with Cons.IH [of "Suc n"] True show ?thesis by simp
  next
    case False
    with Cons.prems have "lf_ok 0 (a @ b)" "n < 3" by simp_all
    with Cons.IH [of 0] False show ?thesis by simp
  qed
qed

lemma split_lines_replicate_append:
  "split_lines (replicate m LF @ y) = replicate m [] @ split_lines y"
  by (induction m) simp_all

lemma collapse_newlines_lines:
  "(n = 0 \<longrightarrow> hd (split_lines (collapse_newlines n x)) = hd (split_lines x)
        \<and> set (tl (split_lines (collapse_newlines n x))) \<subseteq> insert [] (set (tl (split_lines x))))
   \<and> (0 < n \<longrightarrow> hd (split_lines (collapse_newlines n x)) = []
        \<and> set (split_lines (collapse_newlines n x)) \<subseteq> insert [] (set (split_lines x)))"
proof (induction x arbitrary: n)
  case Nil
  have "split_lines (replicate m LF) = replicate (Suc m) []" for m
    using split_lines_replicate_append [of m "[]"] by (simp add: replicate_append_same)
  then show ?case by (cases n) simp_all
next
  case (Cons c cs)
  show ?case
  proof (cases "c = LF")
    case True
    from Cons.IH [of "Suc n"]
    have hd: "hd (split_lines (collapse_newlines (Suc n) cs)) = []"
      and sub: "set (split_lines (collapse_newlines (Suc n) cs)) \<subseteq> insert [] (set (split_lines cs))"
      by simp_all
    have "set (tl (split_lines (collapse_newlines (Suc n) cs)))
            \<subseteq> set (split_lines (collapse_newlines (Suc n) cs))"
      by (metis list.set_sel(2) split_lines_not_Nil subsetI)
    with hd sub True show ?thesis by auto
  next
    case False
    from Cons.IH [of 0]
    have hd: "hd (split_lines (collapse_newlines 0 cs)) = hd (split_lines cs)"
      and sub: "set (tl (split_lines (collapse_newlines 0 cs))) \<subseteq> insert [] (set (tl (split_lines cs)))"
      by simp_all
    define m where "m = (if 3 \<le> n then 2 else n)"
    have m: "0 < n \<Longrightarrow> 0 < m" by (simp add: m_def)
    have eq: "split_lines (collapse_newlines n (c # cs))
                = replicate m [] @ (c # hd (split_lines cs)) # tl (split_lines (collapse_newlines 0 cs))"
      using False hd by (simp add: split_lines_replicate_append m_def)
    have n0: "n = 0 \<Longrightarrow> m = 0" by (simp add: m_def)
    show ?thesis
    proof (intro conjI impI)
      assume "n = 0"
      with eq n0 show "hd (split_lines (collapse_newlines n (c # cs))) = hd (split_lines (c # cs))"
        using False by simp
    next
      assume "n = 0"
      with eq n0 sub show "set (tl (split_lines (collapse_newlines n (c # cs))))
                             \<subseteq> insert [] (set (tl (split_lines (c # cs))))"
        using False by simp
    next
      assume "0 < n"
      with m have "replicate m ([]::string) = [] # replicate (m - 1) []"
        by (cases m) simp_all
      with eq show "hd (split_lines (collapse_newlines n (c # cs))) = []"
        by simp
    next
      assume "0 < n"
      show "set (split_lines (collapse_newlines n (c # cs))) \<subseteq> insert [] (set (split_lines (c # cs)))"
        unfolding eq using sub False by auto
    qed
  qed
qed

lemma collapse_newlines_line:
  assumes "l \<in> set (split_lines (collapse_newlines 0 x))"
  shows "l = [] \<or> l \<in> set (split_lines x)"
proof -
  have d: "ys \<noteq> [] \<Longrightarrow> set ys = insert (hd ys) (set (tl ys))" for ys :: "string list"
    by (cases ys) simp_all
  from collapse_newlines_lines [of 0 x]
  have "hd (split_lines (collapse_newlines 0 x)) = hd (split_lines x)"
    and "set (tl (split_lines (collapse_newlines 0 x))) \<subseteq> insert [] (set (tl (split_lines x)))"
    by simp_all
  with assms d [of "split_lines (collapse_newlines 0 x)"] d [of "split_lines x"]
  show ?thesis by auto
qed

lemma good_line_Nil: "good_line []"
  by (simp add: good_line_def right_trimmed_def trim_def trimStart_def trimEnd_def startsWith_def)

lemma good_line_ws_prefix:
  assumes "all_ws u" and "good_line (u @ l)"
  shows "good_line l"
proof -
  have "trim (u @ l) = trim l"
    using assms(1) by (simp add: trim_def trimStart_ws_prefix)
  moreover have "right_trimmed l"
    using assms(2) by (cases "l = []") (simp_all add: good_line_def right_trimmed_def)
  ultimately show ?thesis
    using assms(2) by (simp add: good_line_def)
qed

lemma good_line_ws_suffix:
  assumes "all_ws u" and "good_line (l @ u)"
  shows "good_line l"
proof (cases "u = []")
  case True
  with assms(2) show ?thesis by simp
next
  case False
  then have "last (l @ u) \<in> set u" by simp
  with assms(1) have "is_ws (last (l @ u))" by (simp add: all_ws_def)
  with assms(2) False show ?thesis by (simp add: good_line_def right_trimmed_def)
qed

lemma split_lines_chars: "l \<in> set (split_lines s) \<Longrightarrow> set l \<subseteq> set s"
proof (induction s arbitrary: l)
  case Nil
  then show ?case by simp
next
  case (Cons c s)
  have d: "set (split_lines s) = insert (hd (split_lines s)) (set (tl (split_lines s)))"
    by (cases "split_lines s") simp_all
  show ?case
  proof (cases "c = LF")
    case True
    with Cons show ?thesis by auto
  next
    case False
    with Cons.prems have "l = c # hd (split_lines s) \<or> l \<in> set (tl (split_lines s))"
      by simp
    then show ?thesis
    proof
      assume l: "l = c # hd (split_lines s)"
      have "set (hd (split_lines s)) \<subseteq> set s"
        using Cons.IH [of "hd (split_lines s)"] d by simp
      with l show ?thesis by auto
    next
      assume "l \<in> set (tl (split_lines s))"
      then have "set l \<subseteq> set s"
        using Cons.IH [of l] d by simp
      then show ?thesis by auto
    qed
  qed
qed

lemma split_lines_all_ws: "all_ws w \<Longrightarrow> l \<in> set (split_lines w) \<Longrightarrow> all_ws l"
  using split_lines_chars [of l w] by (auto simp add: all_ws_def)

lemma good_lines_ws_prefix:
  assumes "all_ws w" and "\<forall>l \<in> set (split_lines (w @ s)). good_line l"
  shows "\<forall>l \<in> set (split_lines s). good_line l"
proof -
  have eq: "split_lines (w @ s) = butlast (split_lines w)
              @ (last (split_lines w) @ hd (split_lines s)) # tl (split_lines s)"
    by (rule split_lines_append)
  have "all_ws (last (split_lines w))"
    using split_lines_all_ws [OF assms(1)] by simp
  moreover have "good_line (last (split_lines w) @ hd (split_lines s))"
    using assms(2) unfolding eq by simp
  ultimately have "good_line (hd (split_lines s))"
    by (rule good_line_ws_prefix)
  moreover have "\<forall>l \<in> set (tl (split_lines s)). good_line l"
    using assms(2) unfolding eq by simp
  moreover have "set (split_lines s) = insert (hd (split_lines s)) (set (tl (split_lines s)))"
    by (cases "split_lines s") simp_all
  ultimately show ?thesis by simp
qed

lemma good_lines_ws_suffix:
  assumes "all_ws w" and "\<forall>l \<in> set (split_lines (s @ w)). good_line l"
  shows "\<forall>l \<in> set (split_lines s). good_line l"
proof -
  have eq: "split_lines (s @ w) = butlast (split_lines s)
              @ (last (split_lines s) @ hd (split_lines w)) # tl (split_lines w)"
    by (rule split_lines_append)
  have "hd (split_lines w) \<in> set (split_lines w)" by simp
  then have "all_ws (hd (split_lines w))"
    using split_lines_all_ws [OF assms(1)] by blast
  moreover have "good_line (last (split_lines s) @ hd (split_lines w))"
    using assms(2) unfolding eq by simp
  ultimately have "good_line (last (split_lines s))"
    by (rule good_line_ws_suffix)
  moreover have "\<forall>l \<in> set (butlast (split_lines s)). good_line l"
    using assms(2) unfolding eq by simp
  moreover have "set (split_lines s) = insert (last (split_lines s)) (set (butlast (split_lines s)))"
    by (cases "split_lines s" rule: rev_cases) simp_all
  ultimately show ?thesis by simp
qed

lemma good_lines_trim:
  assumes "\<forall>l \<in> set (split_lines s). good_line l"
  shows "\<forall>l \<in> set (split_lines (trim s)). good_line l"
proof -
  from trimStart_split [of s] obtain u where u: "s = u @ trimStart s" "all_ws u" by blast
  from trimEnd_split [of "trimStart s"] obtain v where v: "trimStart s = trim s @ v" "all_ws v"
    by (auto simp add: trim_def)
  from assms u have "\<forall>l \<in> set (split_lines (trimStart s)). good_line l"
    using good_lines_ws_prefix [of u "trimStart s"] by simp
  with v show ?thesis
    using good_lines_ws_suffix [of v "trim s"] by simp
qed

lemma filter_comment_lines_good:
  "\<forall>l \<in> set ls. \<not> startsWith (trim l) ''//'' \<Longrightarrow> filter_comment_lines p ls = ls"
  by (induction ls arbitrary: p) (simp_all add: keeps_line_def)

lemma set_trimEnd: "set (trimEnd s) \<subseteq> set s"
  using set_dropWhileD [of _ is_ws "rev s"] by (auto simp add: trimEnd_def)

lemma JavaScript_formatCode_lines:
  assumes "\<forall>ln \<in> set (split_lines src). \<not> startsWith (trim ln) ''//''"
  shows "\<forall>l \<in> set (split_lines (JavaScript_formatCode src)). good_line l"
    and "lf_ok 0 (JavaScript_formatCode src)"
proof -
  define L where "L = map trimEnd (split_lines src)"
  define c where "c = collapse_newlines 0 (join_lines (filter_comment_lines [] L))"
  have f: "JavaScript_formatCode src = (if src = [] then [] else trim c)"
    by (simp add: JavaScript_formatCode_def L_def c_def)
  have good: "\<forall>l \<in> set L. good_line l"
    using assms by (simp add: L_def good_line_def right_trimmed_trimEnd trim_trimEnd)
  then have "filter_comment_lines [] L = L"
    by (simp add: filter_comment_lines_good good_line_def)
  then have c: "c = collapse_newlines 0 (join_lines L)"
    by (simp add: c_def)
  have "LF \<notin> set (trimEnd l)" if "l \<in> set (split_lines src)" for l
    using split_lines_no_LF [OF that] set_trimEnd [of l] by blast
  then have "\<forall>l \<in> set L. LF \<notin> set l"
    by (simp add: L_def)
  moreover have "L \<noteq> []"
    by (simp add: L_def)
  ultimately have lines: "split_lines (join_lines L) = L"
    using split_lines_join_lines [of L] by blast
  have "\<forall>l \<in> set (split_lines c). good_line l"
  proof
    fix l
    assume "l \<in> set (split_lines c)"
    then have "l = [] \<or> l \<in> set (split_lines (join_lines L))"
      unfolding c by (rule collapse_newlines_line)
    then have "l = [] \<or> l \<in> set L"
      by (simp only: lines)
    with good good_line_Nil show "good_line l"
      by blast
  qed
  then have "\<forall>l \<in> set (split_lines (trim c)). good_line l"
    by (rule good_lines_trim)
  then show "\<forall>l \<in> set (split_lines (JavaScript_formatCode src)). good_line l"
    by (simp add: f good_line_Nil)
  have ok: "lf_ok 0 c"
    unfolding c by (rule lf_ok_collapse_newlines)
  from trimStart_split [of c] obtain u where u: "c = u @ trimStart c" by blast
  from trimEnd_split [of "trimStart c"] obtain v where v: "trimStart c = trim c @ v"
    by (auto simp add: trim_def)
  from ok u have "lf_ok 0 (trimStart c)"
    using lf_ok_suffix [of 0 u "trimStart c"] by simp
  with v have "lf_ok 0 (trim c)"
    using lf_ok_prefix [of 0 "trim c" v] by simp
  then show "lf_ok 0 (JavaScript_formatCode src)"
    by (simp add: f)
qed

lemma JavaScript_formatCode_trimmed: "trim (JavaScript_formatCode src) = JavaScript_formatCode src"
proof (cases "src = []")
  case True
  then show ?thesis
    by (simp add: JavaScript_formatCode_def trim_def trimStart_def trimEnd_def)
next
  case False
  then show ?thesis
    by (simp add: JavaScript_formatCode_def trim_idem)
qed

text \<open>
  C10, as amended. For the JavaScript converter and every string none of whose lines,
  trimmed, starts with \<^verbatim>\<open>//\<close>, \<^verbatim>\<open>formatCode(formatCode(s))\<close> equals
  \<^verbatim>\<open>formatCode(s)\<close>: the first application leaves right-trimmed lines, no run of three
  line feeds and no white space at either end, and the second application changes none
  of these.
\<close>

theorem JavaScript_formatCode_idempotent_without_comment_lines:
  assumes "\<forall>ln \<in> set (split_lines src). \<not> startsWith (trim ln) ''//''"
  shows "JavaScript_formatCode (JavaScript_formatCode src) = JavaScript_formatCode src"
proof -
  define t where "t = JavaScript_formatCode src"
  have good: "\<forall>l \<in> set (split_lines t). good_line l" and ok: "lf_ok 0 t"
    using JavaScript_formatCode_lines [OF assms] by (simp_all add: t_def)
  have trimmed: "trim t = t"
    by (simp add: t_def JavaScript_formatCode_trimmed)
  have "map trimEnd (split_lines t) = split_lines t"
    using good by (simp add: map_idI good_line_def trimEnd_right_trimmed)
  moreover have "filter_comment_lines [] (split_lines t) = split_lines t"
    using good by (simp add: filter_comment_lines_good good_line_def)
  moreover have "collapse_newlines 0 t = t"
    using collapse_newlines_lf_ok [OF ok] by simp
  ultimately have "JavaScript_formatCode t = t"
    by (simp add: JavaScript_formatCode_def join_lines_split_lines trimmed)
  then show ?thesis
    by (simp add: t_def)
qed

theorem JavaScript_formatCode_idempotent_without_comment_lines_witness:
  "filter (\<lambda>ln. startsWith (trim ln) ''//'')
     (split_lines ''let  a = 1;  \<newline>\<newline>\<newline>\<newline>  f(a);\<newline>'') = []
   \<and> JavaScript_formatCode ''let  a = 1;  \<newline>\<newline>\<newline>\<newline>  f(a);\<newline>''
       = ''let  a = 1;\<newline>\<newline>  f(a);''
   \<and> JavaScript_formatCode (JavaScript_formatCode ''let  a = 1;  \<newline>\<newline>\<newline>\<newline>  f(a);\<newline>'')
       = JavaScript_formatCode ''let  a = 1;  \<newline>\<newline>\<newline>\<newline>  f(a);\<newline>''"
proof -
  have none: "filter (\<lambda>ln. startsWith (trim ln) ''//'')
     (split_lines ''let  a = 1;  \<newline>\<newline>\<newline>\<newline>  f(a);\<newline>'') = []"
    by code_simp
  then have lines: "\<forall>ln \<in> set (split_lines ''let  a = 1;  \<newline>\<newline>\<newline>\<newline>  f(a);\<newline>'').
       \<not> startsWith (trim ln) ''//''"
    by (simp only: filter_empty_conv)
  have out: "JavaScript_formatCode ''let  a = 1;  \<newline>\<newline>\<newline>\<newline>  f(a);\<newline>''
       = ''let  a = 1;\<newline>\<newline>  f(a);''"
    by code_simp
  from none out JavaScript_formatCode_idempotent_without_comment_lines [OF lines] show ?thesis
    by (intro conjI)
qed

text \<open>
  With comment lines the second application can remove a line the first one kept: the
  filter compares a \<^verbatim>\<open>//\<close> line with its predecessor in the unfiltered array, so two
  equal comments separated by a short comment become neighbours only after the first
  application.
\<close>

theorem JavaScript_formatCode_not_idempotent:
  "JavaScript_formatCode ''// aaaaaaaaaa\<newline>//x\<newline>// aaaaaaaaaa'' = ''// aaaaaaaaaa\<newline>// aaaaaaaaaa''
   \<and> JavaScript_formatCode (JavaScript_formatCode ''// aaaaaaaaaa\<newline>//x\<newline>// aaaaaaaaaa'')
       = ''// aaaaaaaaaa''"
  by code_simp

text \<open>
  The Kotlin and the Python pass are not idempotent either. In Kotlin,
  \<^verbatim>\<open>/\)\s*\{/g\<close> joins a brace to the closing parenthesis of the line before it once the
  lone semicolon line between them is gone; in Python, \<^verbatim>\<open>/\b(def|...|with)\s+/g\<close> puts a
  line feed before a keyword also when the keyword already starts its line.
\<close>

lemma Kotlin_formatCode_not_idempotent:
  "Kotlin_formatCode ''f()\<newline>;\<newline>{'' = ''f()\<newline>{\<newline>''
   \<and> Kotlin_formatCode (Kotlin_formatCode ''f()\<newline>;\<newline>{'') = ''f() {\<newline>''"
  by code_simp

lemma Python_formatCode_not_idempotent:
  "Python_formatCode ''a if x'' = ''a\<newline>if x\<newline>''
   \<and> Python_formatCode (Python_formatCode ''a if x'') = ''a\<newline>\<newline>if x\<newline>''"
  by code_simp

section \<open>Indentation of a text that is laid out\<close>

text \<open>
  The matcher is unfolded by hand in this section: the equations of the two stars call
  the matcher again on the rest of the text.
\<close>

declare ms.simps(8,9) [simp del]






subsection \<open>What the matcher returns\<close>


lemma first_match_None: "ms p b r [] = [] \<Longrightarrow> first_match p b r = None"
  by (simp add: first_match_def)














subsection \<open>Pre-processing steps that change nothing\<close>















subsection \<open>From the lines to the positions of the braces\<close>






subsection \<open>The level follows the depth of the braces\<close>










subsection \<open>The Kotlin and the Java pass\<close>












text \<open>
  Balanced braces that are in place do not suffice without the condition on the
  keywords: \<^verbatim>\<open>/(fun|...|else|...)\s+/g\<close> joins the line after \<^verbatim>\<open>else\<close> to it, and the
  closing brace no longer starts its line.
\<close>

lemma Kotlin_keyword_before_closing_brace:
  "balanced_braces ''{\<newline>else\<newline>}\<newline>''
   \<and> braces_placed ''{\<newline>else\<newline>}\<newline>''
   \<and> Kotlin_preprocess ''{\<newline>else\<newline>}\<newline>'' = ''{\<newline>else }\<newline>''
   \<and> Kotlin_format_loop ''{\<newline>else\<newline>}\<newline>'' = ([''{'', ''    else }'', []], [0, 1], 1)"
  by code_simp

text \<open>
  Nor do balanced braces in a text that the pre-processing leaves as it is, when a
  closing brace does not start its line, or, in Java, when a control header has no brace.
\<close>

lemma Kotlin_brace_not_in_place:
  "balanced_braces ''{\<newline>x }\<newline>''
   \<and> Kotlin_preprocess ''{\<newline>x }\<newline>'' = ''{\<newline>x }\<newline>''
   \<and> \<not> braces_placed ''{\<newline>x }\<newline>''
   \<and> snd (snd (Kotlin_format_loop ''{\<newline>x }\<newline>'')) = 1"
  by code_simp

lemma Java_control_header_without_brace:
  "balanced_braces ''if (x)\<newline>y;\<newline>''
   \<and> braces_placed ''if (x)\<newline>y;\<newline>''
   \<and> Java_preprocess ''if (x)\<newline>y;\<newline>'' = ''if (x)\<newline>y;\<newline>''
   \<and> \<not> list_all opens_by_brace_only (split_lines ''if (x)\<newline>y;\<newline>'')
   \<and> snd (snd (Java_format_loop ''if (x)\<newline>y;\<newline>'')) = 1"
  by code_simp

end
